theory Spec2Isabelle
  imports Main "HOL-Library.Sublist"
begin

section \<open>The Chrome locator and driver bootstrapper of \<^verbatim>\<open>chrome_driver.py\<close>\<close>

text \<open>
  The module talks to its surroundings only through a handful of library calls:
  \<^verbatim>\<open>os.path.exists\<close>, \<^verbatim>\<open>platform.system\<close>, \<^verbatim>\<open>shutil.which\<close>, \<^verbatim>\<open>subprocess.run\<close>,
  \<^verbatim>\<open>os.environ\<close>, \<^verbatim>\<open>tempfile.NamedTemporaryFile\<close>, \<^verbatim>\<open>os.chmod\<close>, \<^verbatim>\<open>os.unlink\<close>,
  the logger and the constructor \<^verbatim>\<open>uc.Chrome\<close>. The embedding takes the answers of
  these calls from a record \<open>env\<close>, keeps the files on disk in an explicit map, and
  returns, next to each result, the list of calls made, in the order they are made.
  An exception is a value: a function that can raise returns \<open>exn + 'a\<close>.
\<close>

subsection \<open>Exceptions\<close>

text \<open>
  Only subclasses of \<^verbatim>\<open>Exception\<close> are modelled (no \<^verbatim>\<open>KeyboardInterrupt\<close> or
  \<^verbatim>\<open>SystemExit\<close>). \<open>Exception\<close> stands for \<^verbatim>\<open>Exception\<close> itself and every subclass
  not listed. In Python \<^verbatim>\<open>TimeoutExpired\<close> is a subclass of \<^verbatim>\<open>SubprocessError\<close>, and
  \<^verbatim>\<open>OSError\<close> (raised by \<^verbatim>\<open>subprocess.run\<close> when the program cannot be executed) is not.
  \<open>msg\<close> is what \<^verbatim>\<open>str(e)\<close> gives.
\<close>

datatype exn_class = TimeoutExpired | SubprocessError | OSError | Exception

datatype exn = Exn (cls: exn_class) (msg: string)

fun issubclass :: "exn_class \<Rightarrow> exn_class \<Rightarrow> bool" where
  "issubclass c Exception = True"
| "issubclass TimeoutExpired SubprocessError = True"
| "issubclass c d = (c = d)"

definition isinstance :: "exn \<Rightarrow> exn_class \<Rightarrow> bool" where
  "isinstance e c = issubclass (cls e) c"

subsection \<open>Data\<close>

record disk_file =
  content :: string
  mode :: nat

type_synonym fs = "string \<rightharpoonup> disk_file"

record completed_process =
  returncode :: int
  stdout :: string

record chrome_options =
  arguments :: "string list"
  binary_location :: string

text \<open>A live driver session is opaque; it is identified by a number.\<close>

type_synonym driver = nat

datatype level = INFO | WARNING | ERROR

datatype event =
    Exists string
  | System
  | Which string
  | Run "string list" nat
  | Log level string
  | ChromeCall chrome_options "string option"
  | TempFile string
  | Write string string
  | Chmod string nat
  | Unlink string

text \<open>
  The surroundings. \<open>which\<close> answers \<^verbatim>\<open>shutil.which\<close>, \<open>run\<close> answers
  \<^verbatim>\<open>subprocess.run(..., capture_output=True, text=True, timeout=10)\<close>, \<open>Chrome\<close>
  answers \<^verbatim>\<open>uc.Chrome(options=..., browser_executable_path=...)\<close>.
  \<open>NamedTemporaryFile\<close> gives the name the temporary file gets, without its suffix.
\<close>

record env =
  environ :: "string \<rightharpoonup> string"
  system :: string
  which :: "string \<Rightarrow> exn + string option"
  run :: "string list \<Rightarrow> exn + completed_process"
  Chrome :: "chrome_options \<Rightarrow> string option \<Rightarrow> exn + driver"
  NamedTemporaryFile :: "exn + string"
  write_error :: "exn option"
  chmod_error :: "exn option"
  unlink_error :: "exn option"

subsection \<open>Strings\<close>

text \<open>
  \<^verbatim>\<open>str.lower\<close> on the ASCII letters. A character outside ASCII never lowers to one
  of the letters of \<^verbatim>\<open>true\<close>, so the comparison of \<open>get_options\<close> is not affected.
\<close>

definition lower_char :: "char \<Rightarrow> char" where
  "lower_char c =
     (let n = (of_char c :: nat) in if 65 \<le> n \<and> n \<le> 90 then char_of (n + 32) else c)"

definition lower :: "string \<Rightarrow> string" where
  "lower s = map lower_char s"

text \<open>\<^verbatim>\<open>s.startswith(pre)\<close> and \<^verbatim>\<open>a in b\<close> on strings.\<close>

definition startswith :: "string \<Rightarrow> string \<Rightarrow> bool" where
  "startswith s pre = (take (length pre) s = pre)"

fun contains :: "string \<Rightarrow> string \<Rightarrow> bool" where
  "contains [] a = (a = [])"
| "contains (c # cs) a = (startswith (c # cs) a \<or> contains cs a)"

text \<open>Truth value of \<^verbatim>\<open>None\<close> or a string: only a non-empty string is true.\<close>

fun truthy :: "string option \<Rightarrow> bool" where
  "truthy None = False"
| "truthy (Some s) = (s \<noteq> [])"

text \<open>A Windows path from its components, joined by backslashes.\<close>

fun win_path :: "string list \<Rightarrow> string" where
  "win_path [] = []"
| "win_path [x] = x"
| "win_path (x # y # ys) = x @ CHR 0x5C # win_path (y # ys)"

subsection \<open>\<^verbatim>\<open>find_chrome\<close>\<close>

definition possiblePaths :: "string list" where
  "possiblePaths =
    [win_path [''C:'', ''Program Files'', ''Google'', ''Chrome'', ''Application'', ''chrome.exe''],
     win_path [''C:'', ''Program Files (x86)'', ''Google'', ''Chrome'', ''Application'', ''chrome.exe''],
     win_path [''C:'', ''ProgramData'', ''chocolatey'', ''bin'', ''chrome.exe''],
     win_path [''C:'', ''Users'', ''%USERNAME%'', ''AppData'', ''Local'', ''Google'', ''Chrome'',
               ''Application'', ''chrome.exe''],
     ''/usr/bin/google-chrome'',
     ''/usr/local/bin/google-chrome'',
     ''/opt/google/chrome/chrome'',
     ''/snap/bin/chromium'',
     ''/Applications/Google Chrome.app/Contents/MacOS/Google Chrome'']"

definition flatpak_chrome_apps :: "string list" where
  "flatpak_chrome_apps = [''com.google.Chrome'', ''org.chromium.Chromium'']"

text \<open>Lines 31-33: the loop over \<open>possiblePaths\<close>.\<close>

fun scan_possiblePaths :: "fs \<Rightarrow> string list \<Rightarrow> string option \<times> event list" where
  "scan_possiblePaths files [] = (None, [])"
| "scan_possiblePaths files (path # rest) =
     (if files path \<noteq> None then (Some path, [Exists path])
      else (let (r, t) = scan_possiblePaths files rest in (r, Exists path # t)))"

text \<open>Lines 51-54: the loop over \<open>flatpak_chrome_apps\<close>.\<close>

fun scan_flatpak_apps :: "string \<Rightarrow> string list \<Rightarrow> string option \<times> event list" where
  "scan_flatpak_apps installed_apps [] = (None, [])"
| "scan_flatpak_apps installed_apps (app_id # rest) =
     (if contains installed_apps app_id
      then (Some (''flatpak run '' @ app_id),
            [Log INFO (''Found Flatpak Chrome installation: '' @ app_id)])
      else scan_flatpak_apps installed_apps rest)"

text \<open>
  Lines 36-57. \<open>Inl e\<close>: the exception \<open>e\<close> leaves \<open>find_chrome\<close>; \<open>Inr (Some r)\<close>:
  \<open>find_chrome\<close> returns \<open>r\<close>; \<open>Inr None\<close>: control reaches line 59.
\<close>

definition find_chrome_flatpak :: "env \<Rightarrow> (exn + string option) \<times> event list" where
  "find_chrome_flatpak env =
     (if system env = ''Linux'' then
        (case which env ''flatpak'' of
           Inl e \<Rightarrow> (Inl e, [System, Which ''flatpak''])
         | Inr flatpak \<Rightarrow>
             if truthy flatpak then
               (case run env [''flatpak'', ''list'', ''--app''] of
                  Inl e \<Rightarrow>
                    if isinstance e TimeoutExpired \<or> isinstance e SubprocessError
                    then (Inr None,
                          [System, Which ''flatpak'', Run [''flatpak'', ''list'', ''--app''] 10,
                           Log WARNING (''Error checking Flatpak installations: '' @ msg e)])
                    else (Inl e,
                          [System, Which ''flatpak'', Run [''flatpak'', ''list'', ''--app''] 10])
                | Inr result \<Rightarrow>
                    if returncode result = 0 then
                      (let (r, t) = scan_flatpak_apps (stdout result) flatpak_chrome_apps
                       in (Inr r,
                           [System, Which ''flatpak'',
                            Run [''flatpak'', ''list'', ''--app''] 10] @ t))
                    else (Inr None,
                          [System, Which ''flatpak'', Run [''flatpak'', ''list'', ''--app''] 10]))
             else (Inr None, [System, Which ''flatpak'']))
      else (Inr None, [System]))"

text \<open>Lines 59-70: what \<open>find_chrome\<close> returns once control reaches line 59.\<close>

definition find_chrome_which :: "env \<Rightarrow> string option \<times> event list" where
  "find_chrome_which env =
     (if system env = ''Windows'' then
        (case which env ''chrome'' of
           Inl e \<Rightarrow>
             (None, [System, Which ''chrome'',
                     Log ERROR (''Error while searching system paths for Chrome: '' @ msg e)])
         | Inr chrome_path \<Rightarrow>
             (if truthy chrome_path then chrome_path else None, [System, Which ''chrome'']))
      else
        (case which env ''google-chrome'' of
           Inl e \<Rightarrow>
             (None, [System, Which ''google-chrome'',
                     Log ERROR (''Error while searching system paths for Chrome: '' @ msg e)])
         | Inr google_chrome \<Rightarrow>
             if truthy google_chrome then (google_chrome, [System, Which ''google-chrome''])
             else
               (case which env ''chromium'' of
                  Inl e \<Rightarrow>
                    (None, [System, Which ''google-chrome'', Which ''chromium'',
                            Log ERROR (''Error while searching system paths for Chrome: '' @ msg e)])
                | Inr chrome_path \<Rightarrow>
                    (if truthy chrome_path then chrome_path else None,
                     [System, Which ''google-chrome'', Which ''chromium'']))))"

definition find_chrome :: "env \<Rightarrow> fs \<Rightarrow> (exn + string option) \<times> event list" where
  "find_chrome env files =
     (case scan_possiblePaths files possiblePaths of
        (Some path, t1) \<Rightarrow> (Inr (Some path), t1)
      | (None, t1) \<Rightarrow>
          (case find_chrome_flatpak env of
             (Inl e, t2) \<Rightarrow> (Inl e, t1 @ t2)
           | (Inr (Some r), t2) \<Rightarrow> (Inr (Some r), t1 @ t2)
           | (Inr None, t2) \<Rightarrow>
               (let (r, t3) = find_chrome_which env in (Inr r, t1 @ t2 @ t3))))"

subsection \<open>\<^verbatim>\<open>get_options\<close>\<close>

definition add_argument :: "string \<Rightarrow> chrome_options \<Rightarrow> chrome_options" where
  "add_argument arg opts = opts\<lparr>arguments := arguments opts @ [arg]\<rparr>"

definition ChromeOptions :: chrome_options where
  "ChromeOptions = \<lparr>arguments = [], binary_location = []\<rparr>"

definition get_options :: "env \<Rightarrow> chrome_options" where
  "get_options env =
     (let chrome_options = ChromeOptions;
          chrome_options = add_argument ''--start-maximised'' chrome_options;
          chrome_options = add_argument ''--disable-extensions'' chrome_options;
          chrome_options = add_argument ''--disable-gpu'' chrome_options;
          chrome_options = add_argument ''--no-sandbox'' chrome_options
      in if lower (case environ env ''HEADLESS'' of None \<Rightarrow> ''false'' | Some v \<Rightarrow> v) = ''true''
         then add_argument ''--headless=new'' chrome_options
         else chrome_options)"

subsection \<open>\<^verbatim>\<open>create_flatpak_wrapper_script\<close>\<close>

text \<open>
  The temporary file is created empty with mode 0600 (384), written, then given mode
  0755 (493). Each of the three steps can raise.
\<close>

definition wrapper_content :: "string \<Rightarrow> string" where
  \<open>wrapper_content flatpak_command =
     ''#!/bin/bash\<newline>exec '' @ flatpak_command @ '' "$@"\<newline>''\<close>

definition create_flatpak_wrapper_script ::
  "env \<Rightarrow> string \<Rightarrow> fs \<Rightarrow> (exn + string) \<times> fs \<times> event list" where
  "create_flatpak_wrapper_script env flatpak_command files =
     (case NamedTemporaryFile env of
        Inl e \<Rightarrow> (Inl e, files, [TempFile ''.sh''])
      | Inr name \<Rightarrow>
          (let wrapper_path = name @ ''.sh'';
               files1 = files(wrapper_path \<mapsto> \<lparr>content = [], mode = 384\<rparr>)
           in case write_error env of
                Some e \<Rightarrow>
                  (Inl e, files1,
                   [TempFile ''.sh'', Write wrapper_path (wrapper_content flatpak_command)])
              | None \<Rightarrow>
                  (let files2 = files1(wrapper_path \<mapsto>
                         \<lparr>content = wrapper_content flatpak_command, mode = 384\<rparr>)
                   in case chmod_error env of
                        Some e \<Rightarrow>
                          (Inl e, files2,
                           [TempFile ''.sh'', Write wrapper_path (wrapper_content flatpak_command),
                            Chmod wrapper_path 493])
                      | None \<Rightarrow>
                          (Inr wrapper_path,
                           files2(wrapper_path \<mapsto>
                             \<lparr>content = wrapper_content flatpak_command, mode = 493\<rparr>),
                           [TempFile ''.sh'', Write wrapper_path (wrapper_content flatpak_command),
                            Chmod wrapper_path 493,
                            Log INFO (''Created Flatpak wrapper script at: '' @ wrapper_path)]))))"

subsection \<open>\<^verbatim>\<open>create_driver\<close>\<close>

definition terminal_error :: exn where
  "terminal_error = Exn Exception
     (''[ChromeDriver] Failed to install ChromeDriver. A current version of Chrome was not detected on your system.\<newline>''
      @ ''If you know that Chrome is installed (including Flatpak versions), update Chrome to the latest version. ''
      @ ''If the script is still not working, set the path to your Chrome executable manually inside the script.\<newline>''
      @ ''For Flatpak Chrome, ensure you have either 'com.google.Chrome' or 'org.chromium.Chromium' installed.'')"

text \<open>
  Lines 122-155, for a path that is true. \<open>Some d\<close>: \<open>create_driver\<close> returns \<open>d\<close>;
  \<open>None\<close>: control reaches the \<^verbatim>\<open>raise\<close> of line 159.
\<close>

definition create_driver_with_path ::
  "env \<Rightarrow> fs \<Rightarrow> string \<Rightarrow> driver option \<times> fs \<times> event list" where
  "create_driver_with_path env files chrome_path =
     (let chrome_options = get_options env in
      if startswith chrome_path ''flatpak run'' then
        (case create_flatpak_wrapper_script env chrome_path files of
           (Inl e, files1, t1) \<Rightarrow>
             (None, files1,
              t1 @ [Log ERROR (''ChromeDriver failed using Flatpak Chrome '' @ chrome_path
                               @ '': '' @ msg e)])
         | (Inr wrapper_script, files1, t1) \<Rightarrow>
             (let chrome_options = chrome_options\<lparr>binary_location := wrapper_script\<rparr>;
                  chrome_options = add_argument ''--disable-dev-shm-usage'' chrome_options;
                  chrome_options = add_argument ''--disable-setuid-sandbox'' chrome_options
              in case Chrome env chrome_options (Some wrapper_script) of
                   Inr driver \<Rightarrow>
                     (Some driver, files1,
                      t1 @ [ChromeCall chrome_options (Some wrapper_script),
                            Log INFO (''ChromeDriver started using Flatpak Chrome: ''
                                      @ chrome_path)])
                 | Inl e \<Rightarrow>
                     (let t2 = t1 @ [ChromeCall chrome_options (Some wrapper_script),
                                     Log ERROR (''ChromeDriver failed using Flatpak Chrome ''
                                                @ chrome_path @ '': '' @ msg e),
                                     Exists wrapper_script]
                      in if files1 wrapper_script \<noteq> None then
                           (case unlink_error env of
                              None \<Rightarrow>
                                (None, files1(wrapper_script := None),
                                 t2 @ [Unlink wrapper_script])
                            | Some _ \<Rightarrow> (None, files1, t2 @ [Unlink wrapper_script]))
                         else (None, files1, t2))))
      else
        (let chrome_options = chrome_options\<lparr>binary_location := chrome_path\<rparr>
         in case Chrome env chrome_options (Some chrome_path) of
              Inr driver \<Rightarrow>
                (Some driver, files,
                 [ChromeCall chrome_options (Some chrome_path),
                  Log INFO (''ChromeDriver started using browser_executable_path: ''
                            @ chrome_path)])
            | Inl e \<Rightarrow>
                (None, files,
                 [ChromeCall chrome_options (Some chrome_path),
                  Log ERROR (''ChromeDriver failed using path '' @ chrome_path
                             @ '': '' @ msg e)])))"

definition create_driver :: "env \<Rightarrow> fs \<Rightarrow> (exn + driver) \<times> fs \<times> event list" where
  "create_driver env files =
     (let chrome_options = get_options env in
      case Chrome env chrome_options None of
        Inr driver \<Rightarrow>
          (Inr driver, files,
           [ChromeCall chrome_options None,
            Log INFO ''ChromeDriver installed and browser started.''])
      | Inl _ \<Rightarrow>
          (let t0 = [ChromeCall chrome_options None,
                     Log WARNING ''Default ChromeDriver creation failed. Trying alternative paths...''];
               (found, t1) = find_chrome env files
           in case found of
                Inl e \<Rightarrow> (Inl e, files, t0 @ t1)
              | Inr chrome_path \<Rightarrow>
                  (let (r, files1, t2) =
                         (if truthy chrome_path
                          then create_driver_with_path env files
                                 (case chrome_path of Some p \<Rightarrow> p | None \<Rightarrow> [])
                          else (None, files,
                                [Log ERROR ''No Chrome executable found in known paths or Flatpak installations.'']))
                   in case r of
                        Some driver \<Rightarrow> (Inr driver, files1, t0 @ t1 @ t2)
                      | None \<Rightarrow> (Inl terminal_error, files1, t0 @ t1 @ t2))))"

subsection \<open>Scenarios\<close>

text \<open>
  Concrete surroundings on which the functions are evaluated. \<open>env_bare\<close>: a Linux
  host with nothing on \<^verbatim>\<open>PATH\<close>, where every construction of a driver fails.
\<close>

definition env_bare :: env where
  "env_bare =
     \<lparr>environ = Map.empty, system = ''Linux'', which = (\<lambda>_. Inr None),
      run = (\<lambda>_. Inr \<lparr>returncode = 0, stdout = []\<rparr>),
      Chrome = (\<lambda>_ _. Inl (Exn Exception ''cannot connect to chrome'')),
      NamedTemporaryFile = Inr ''/tmp/tmpk3x9q2vd'',
      write_error = None, chmod_error = None, unlink_error = None\<rparr>"

text \<open>\<^verbatim>\<open>flatpak\<close> is on \<^verbatim>\<open>PATH\<close> and lists the Flatpak Chrome.\<close>

definition env_flatpak :: env where
  "env_flatpak = env_bare
     \<lparr>which := (\<lambda>cmd. if cmd = ''flatpak'' then Inr (Some ''/usr/bin/flatpak'') else Inr None),
      run := (\<lambda>_. Inr \<lparr>returncode = 0, stdout = ''Chrome com.google.Chrome stable system''\<rparr>)\<rparr>"

text \<open>A disk with two of the candidate paths.\<close>

definition fs_two :: fs where
  "fs_two = [''/snap/bin/chromium'' \<mapsto> \<lparr>content = [], mode = 493\<rparr>,
             ''/opt/google/chrome/chrome'' \<mapsto> \<lparr>content = [], mode = 493\<rparr>]"

text \<open>\<^verbatim>\<open>flatpak\<close> lists no Chrome, and \<^verbatim>\<open>google-chrome\<close> is on \<^verbatim>\<open>PATH\<close>.\<close>

definition env_path_lookup :: env where
  "env_path_lookup = env_bare
     \<lparr>which := (\<lambda>cmd. if cmd = ''flatpak'' then Inr (Some ''/usr/bin/flatpak'')
                       else if cmd = ''google-chrome'' then Inr (Some ''/usr/bin/google-chrome'')
                       else Inr None),
      run := (\<lambda>_. Inr \<lparr>returncode = 0, stdout = ''Firefox org.mozilla.firefox stable system''\<rparr>)\<rparr>"

text \<open>A Windows host with \<^verbatim>\<open>chrome\<close> on \<^verbatim>\<open>PATH\<close>.\<close>

definition env_windows :: env where
  "env_windows = env_bare
     \<lparr>system := ''Windows'',
      which := (\<lambda>cmd. if cmd = ''chrome'' then Inr (Some (win_path [''D:'', ''Tools'', ''chrome.EXE'']))
                       else Inr None)\<rparr>"

text \<open>A Windows host with \<^verbatim>\<open>google-chrome\<close> on \<^verbatim>\<open>PATH\<close> and no \<^verbatim>\<open>chrome\<close>.\<close>

definition env_windows_google_chrome :: env where
  "env_windows_google_chrome = env_bare
     \<lparr>system := ''Windows'',
      which := (\<lambda>cmd. if cmd = ''google-chrome''
                       then Inr (Some (win_path [''D:'', ''Tools'', ''google-chrome.EXE'']))
                       else Inr None)\<rparr>"

text \<open>A macOS host with \<^verbatim>\<open>chromium\<close> on \<^verbatim>\<open>PATH\<close> and no \<^verbatim>\<open>google-chrome\<close>.\<close>

definition env_chromium :: env where
  "env_chromium = env_bare
     \<lparr>system := ''Darwin'',
      which := (\<lambda>cmd. if cmd = ''chromium'' then Inr (Some ''/opt/homebrew/bin/chromium'')
                       else Inr None)\<rparr>"

text \<open>\<^verbatim>\<open>flatpak list --app\<close> prints the Flatpak Chrome and exits with code 1.\<close>

definition env_nonzero :: env where
  "env_nonzero = env_flatpak
     \<lparr>run := (\<lambda>_. Inr \<lparr>returncode = 1, stdout = ''Chrome com.google.Chrome stable system''\<rparr>)\<rparr>"

text \<open>\<^verbatim>\<open>flatpak\<close> is on \<^verbatim>\<open>PATH\<close> and cannot be executed: \<^verbatim>\<open>subprocess.run\<close> raises \<^verbatim>\<open>OSError\<close>.\<close>

definition env_spawn_fails :: env where
  "env_spawn_fails = env_flatpak
     \<lparr>run := (\<lambda>_. Inl (Exn OSError ''[Errno 8] Exec format error: /usr/bin/flatpak''))\<rparr>"

text \<open>A disk with Chrome in the profile directory of the user \<^verbatim>\<open>alice\<close>.\<close>

definition fs_alice :: fs where
  "fs_alice = [win_path [''C:'', ''Users'', ''alice'', ''AppData'', ''Local'', ''Google'', ''Chrome'',
                         ''Application'', ''chrome.exe''] \<mapsto> \<lparr>content = [], mode = 493\<rparr>]"

text \<open>As \<open>env_flatpak\<close>, and a driver can be constructed once a browser executable is given.\<close>

definition env_flatpak_ok :: env where
  "env_flatpak_ok = env_flatpak
     \<lparr>Chrome := (\<lambda>opts path. if path = None
                    then Inl (Exn Exception ''cannot connect to chrome'') else Inr 1)\<rparr>"

text \<open>As \<open>env_flatpak\<close>, and \<^verbatim>\<open>os.unlink\<close> raises.\<close>

definition env_unlink_fails :: env where
  "env_unlink_fails = env_flatpak
     \<lparr>unlink_error := Some (Exn OSError ''[Errno 13] Permission denied'')\<rparr>"

text \<open>As \<open>env_flatpak\<close>, and the temporary file cannot be created.\<close>

definition env_tmp_fails :: env where
  "env_tmp_fails = env_flatpak
     \<lparr>NamedTemporaryFile := Inl (Exn OSError ''[Errno 28] No space left on device'')\<rparr>"

section \<open>Properties\<close>

subsection \<open>Strings\<close>

text \<open>
  \<open>startswith\<close> and \<open>contains\<close> are the prefix and the contiguous-sublist
  relations of the library.
\<close>

lemma startswith_iff_prefix: "startswith s pre \<longleftrightarrow> prefix pre s"
  unfolding startswith_def prefix_def
  by (metis append_eq_conv_conj append_take_drop_id)

lemma contains_iff_sublist: "contains s a \<longleftrightarrow> sublist a s"
proof (induction s)
  case Nil
  then show ?case by simp
next
  case (Cons c cs)
  then show ?case
    by (simp add: startswith_iff_prefix sublist_Cons_right)
qed

subsection \<open>The scan of the candidate paths\<close>

lemma scan_possiblePaths_none:
  "\<forall>p\<in>set ps. files p = None \<Longrightarrow> scan_possiblePaths files ps = (None, map Exists ps)"
  by (induction ps) simp_all

lemma scan_possiblePaths_found:
  "\<exists>p\<in>set ps. files p \<noteq> None \<Longrightarrow>
     \<exists>pre p post. ps = pre @ p # post \<and> (\<forall>q\<in>set pre. files q = None) \<and> files p \<noteq> None
        \<and> scan_possiblePaths files ps = (Some p, map Exists (pre @ [p]))"
proof (induction ps)
  case Nil
  then show ?case by simp
next
  case (Cons a ps)
  show ?case
  proof (cases "files a = None")
    case False
    then have "a # ps = [] @ a # ps \<and> (\<forall>q\<in>set []. files q = None) \<and> files a \<noteq> None
        \<and> scan_possiblePaths files (a # ps) = (Some a, map Exists ([] @ [a]))"
      by simp
    then show ?thesis by blast
  next
    case True
    with Cons.prems have "\<exists>p\<in>set ps. files p \<noteq> None" by auto
    from Cons.IH [OF this] obtain pre p post where
      h: "ps = pre @ p # post" "\<forall>q\<in>set pre. files q = None" "files p \<noteq> None"
         "scan_possiblePaths files ps = (Some p, map Exists (pre @ [p]))"
      by blast
    with True have "a # ps = (a # pre) @ p # post \<and> (\<forall>q\<in>set (a # pre). files q = None)
        \<and> files p \<noteq> None
        \<and> scan_possiblePaths files (a # ps) = (Some p, map Exists ((a # pre) @ [p]))"
      by simp
    then show ?thesis by blast
  qed
qed

text \<open>
  C2. If one of the candidate paths exists on disk, \<open>find_chrome\<close> returns the first
  one of the list that exists; the calls it has made are the existence tests up to that
  path, so neither \<^verbatim>\<open>shutil.which\<close> nor \<^verbatim>\<open>subprocess.run\<close> is reached.
\<close>

theorem find_chrome_first_existing_path:
  assumes "\<exists>p\<in>set possiblePaths. files p \<noteq> None"
  shows "\<exists>pre p post. possiblePaths = pre @ p # post \<and> (\<forall>q\<in>set pre. files q = None)
           \<and> files p \<noteq> None
           \<and> find_chrome env files = (Inr (Some p), map Exists (pre @ [p]))
           \<and> (\<forall>cmd. Which cmd \<notin> set (snd (find_chrome env files)))
           \<and> (\<forall>args n. Run args n \<notin> set (snd (find_chrome env files)))"
proof -
  from scan_possiblePaths_found [OF assms] obtain pre p post where
    h: "possiblePaths = pre @ p # post" "\<forall>q\<in>set pre. files q = None" "files p \<noteq> None"
       "scan_possiblePaths files possiblePaths = (Some p, map Exists (pre @ [p]))"
    by blast
  then have r: "find_chrome env files = (Inr (Some p), map Exists (pre @ [p]))"
    by (simp add: find_chrome_def)
  have "(\<forall>cmd. Which cmd \<notin> set (snd (find_chrome env files)))
      \<and> (\<forall>args n. Run args n \<notin> set (snd (find_chrome env files)))"
    unfolding r by auto
  with h r show ?thesis by blast
qed

theorem find_chrome_first_existing_path_witness:
  "(\<exists>p\<in>set possiblePaths. fs_two p \<noteq> None)
   \<and> find_chrome env_flatpak fs_two
       = (Inr (Some ''/opt/google/chrome/chrome''), map Exists (take 7 possiblePaths))
   \<and> (\<forall>cmd. Which cmd \<notin> set (snd (find_chrome env_flatpak fs_two)))
   \<and> (\<forall>args n. Run args n \<notin> set (snd (find_chrome env_flatpak fs_two)))"
proof -
  have ex: "\<exists>p\<in>set possiblePaths. fs_two p \<noteq> None"
    by (simp add: possiblePaths_def fs_two_def)
  have ev: "find_chrome env_flatpak fs_two
      = (Inr (Some ''/opt/google/chrome/chrome''), map Exists (take 7 possiblePaths))"
    by (simp add: find_chrome_def possiblePaths_def fs_two_def)
  show ?thesis
    using find_chrome_first_existing_path [OF ex, of env_flatpak] ex ev by blast
qed

subsection \<open>The options\<close>

lemma of_char_lower_char:
  "(of_char (lower_char c) :: nat) =
     (if 65 \<le> (of_char c :: nat) \<and> (of_char c :: nat) \<le> 90 then of_char c + 32
      else of_char c)"
proof (cases "65 \<le> (of_char c :: nat) \<and> (of_char c :: nat) \<le> 90")
  case True
  then have "(of_char c + 32 :: nat) < 256" by simp
  then have "(of_char c + 32 :: nat) mod 256 = of_char c + 32" by simp
  with True show ?thesis by (simp add: lower_char_def Let_def del: mod_less)
next
  case False
  then have "lower_char c = c" by (auto simp: lower_char_def Let_def)
  with False show ?thesis by auto
qed

text \<open>A lower-case letter \<open>l\<close> is the image of itself and of its capital \<open>u\<close> only.\<close>

lemma lower_char_eq_iff:
  assumes "97 \<le> (of_char l :: nat)" "(of_char l :: nat) \<le> 122"
    and "(of_char u :: nat) = of_char l - 32"
  shows "lower_char c = l \<longleftrightarrow> c = l \<or> c = u"
proof -
  have "lower_char c = l \<longleftrightarrow> (of_char (lower_char c) :: nat) = of_char l"
    by (metis of_char_eq_iff)
  also have "\<dots> \<longleftrightarrow> (of_char c :: nat) = of_char l \<or> (of_char c :: nat) = of_char u"
    using assms unfolding of_char_lower_char by auto
  also have "\<dots> \<longleftrightarrow> c = l \<or> c = u"
    by (metis of_char_eq_iff)
  finally show ?thesis .
qed

lemma map_eq_4:
  "map f s = [w, x, y, z] \<longleftrightarrow>
     (\<exists>a b c d. s = [a, b, c, d] \<and> f a = w \<and> f b = x \<and> f c = y \<and> f d = z)"
  by (auto simp: map_eq_Cons_conv)

lemma lower_true_iff:
  "lower s = ''true'' \<longleftrightarrow>
     (\<exists>a b c d. s = [a, b, c, d] \<and> a \<in> {CHR ''t'', CHR ''T''} \<and> b \<in> {CHR ''r'', CHR ''R''}
        \<and> c \<in> {CHR ''u'', CHR ''U''} \<and> d \<in> {CHR ''e'', CHR ''E''})"
proof -
  have t: "lower_char x = CHR ''t'' \<longleftrightarrow> x = CHR ''t'' \<or> x = CHR ''T''" for x
    by (rule lower_char_eq_iff) simp_all
  have r: "lower_char x = CHR ''r'' \<longleftrightarrow> x = CHR ''r'' \<or> x = CHR ''R''" for x
    by (rule lower_char_eq_iff) simp_all
  have u: "lower_char x = CHR ''u'' \<longleftrightarrow> x = CHR ''u'' \<or> x = CHR ''U''" for x
    by (rule lower_char_eq_iff) simp_all
  have e: "lower_char x = CHR ''e'' \<longleftrightarrow> x = CHR ''e'' \<or> x = CHR ''E''" for x
    by (rule lower_char_eq_iff) simp_all
  show ?thesis
    unfolding lower_def map_eq_4 t r u e by simp
qed

lemma arguments_get_options:
  "arguments (get_options env) =
     [''--start-maximised'', ''--disable-extensions'', ''--disable-gpu'', ''--no-sandbox'']
     @ (if lower (case environ env ''HEADLESS'' of None \<Rightarrow> ''false'' | Some v \<Rightarrow> v) = ''true''
        then [''--headless=new''] else [])"
  by (simp add: get_options_def add_argument_def ChromeOptions_def)

lemma get_options_no_environ:
  "environ env = Map.empty \<Longrightarrow> get_options env =
     \<lparr>arguments = [''--start-maximised'', ''--disable-extensions'', ''--disable-gpu'',
                   ''--no-sandbox''],
      binary_location = []\<rparr>"
  by (simp add: get_options_def add_argument_def ChromeOptions_def lower_def lower_char_def)

text \<open>
  The options of \<open>get_options\<close> hold the four arguments of the source
  (\<^verbatim>\<open>--start-maximised\<close>, spelled as the source spells it, \<^verbatim>\<open>--disable-extensions\<close>,
  \<^verbatim>\<open>--disable-gpu\<close>, \<^verbatim>\<open>--no-sandbox\<close>), and they hold \<^verbatim>\<open>--headless=new\<close> exactly
  when \<^verbatim>\<open>HEADLESS\<close> is set to one of the sixteen spellings of \<^verbatim>\<open>true\<close> in upper and
  lower case.
\<close>

lemma get_options_headless_iff:
  "''--start-maximised'' \<in> set (arguments (get_options env))
   \<and> ''--disable-extensions'' \<in> set (arguments (get_options env))
   \<and> ''--disable-gpu'' \<in> set (arguments (get_options env))
   \<and> ''--no-sandbox'' \<in> set (arguments (get_options env))
   \<and> (''--headless=new'' \<in> set (arguments (get_options env)) \<longleftrightarrow>
        (\<exists>a b c d. environ env ''HEADLESS'' = Some [a, b, c, d]
           \<and> a \<in> {CHR ''t'', CHR ''T''} \<and> b \<in> {CHR ''r'', CHR ''R''}
           \<and> c \<in> {CHR ''u'', CHR ''U''} \<and> d \<in> {CHR ''e'', CHR ''E''}))"
proof (cases "environ env ''HEADLESS''")
  case None
  have "lower ''false'' \<noteq> ''true''"
    by (simp add: lower_true_iff)
  with None show ?thesis
    by (simp add: arguments_get_options)
next
  case (Some v)
  then show ?thesis
    by (auto simp: arguments_get_options lower_true_iff)
qed

text \<open>
  C3. The first argument of \<open>get_options\<close> is \<^verbatim>\<open>--start-maximised\<close> (line 75).
  The switch of Chrome that starts the browser maximized is spelled
  \<^verbatim>\<open>--start-maximized\<close>, and that argument is in the options of no environment: the
  configuration holds no option for a maximized window. The other three arguments and
  the headless argument are as \<open>get_options_headless_iff\<close> states.
\<close>

theorem get_options_start_maximized_missing:
  "''--start-maximized'' \<notin> set (arguments (get_options env))
   \<and> arguments (get_options env_bare) =
       [''--start-maximised'', ''--disable-extensions'', ''--disable-gpu'', ''--no-sandbox'']"
proof -
  have "environ env_bare = Map.empty" by (simp add: env_bare_def)
  then have "arguments (get_options env_bare) =
       [''--start-maximised'', ''--disable-extensions'', ''--disable-gpu'', ''--no-sandbox'']"
    by (simp add: get_options_no_environ)
  moreover have "''--start-maximized'' \<notin> set (arguments (get_options env))"
    by (simp add: arguments_get_options)
  ultimately show ?thesis by blast
qed

subsection \<open>The calls of \<open>find_chrome\<close>\<close>

lemma truthy_iff: "truthy w \<longleftrightarrow> (\<exists>p. w = Some p \<and> p \<noteq> [])"
  by (cases w) simp_all

lemma snd_scan_possiblePaths:
  "snd (scan_possiblePaths files ps) = map Exists (takeWhile (\<lambda>p. files p = None) ps @ take 1 (dropWhile (\<lambda>p. files p = None) ps))"
  by (induction ps) (simp_all add: case_prod_unfold)

lemma scan_possiblePaths_only_Exists:
  "ev \<in> set (snd (scan_possiblePaths files ps)) \<Longrightarrow> \<exists>p. ev = Exists p"
  by (auto simp: snd_scan_possiblePaths)

lemma scan_flatpak_apps_only_Log:
  "ev \<in> set (snd (scan_flatpak_apps out apps)) \<Longrightarrow> \<exists>m. ev = Log INFO m"
  by (induction apps) (auto split: if_splits)

lemma find_chrome_which_no_Run: "Run args n \<notin> set (snd (find_chrome_which env))"
  by (auto simp: find_chrome_which_def split: sum.splits)

lemma find_chrome_flatpak_Run:
  assumes "Run args n \<in> set (snd (find_chrome_flatpak env))"
  shows "system env = ''Linux'' \<and> (\<exists>p. which env ''flatpak'' = Inr (Some p) \<and> p \<noteq> [])
         \<and> args = [''flatpak'', ''list'', ''--app''] \<and> n = 10"
proof -
  have l: "system env = ''Linux''"
    using assms by (auto simp: find_chrome_flatpak_def split: if_splits)
  obtain w where w: "which env ''flatpak'' = Inr w"
    using assms l by (cases "which env ''flatpak''") (auto simp: find_chrome_flatpak_def)
  have t: "truthy w"
    using assms l w by (auto simp: find_chrome_flatpak_def split: if_splits)
  have a: "args = [''flatpak'', ''list'', ''--app''] \<and> n = 10"
    using assms l w t
    by (auto simp: find_chrome_flatpak_def case_prod_unfold Let_def split: sum.splits if_splits
             dest: scan_flatpak_apps_only_Log)
  from l w t a show ?thesis by (simp add: truthy_iff)
qed

lemma snd_find_chrome_cases:
  "snd (find_chrome env files) = snd (scan_possiblePaths files possiblePaths)
   \<or> (\<exists>t. snd (find_chrome env files) = snd (scan_possiblePaths files possiblePaths) @ snd (find_chrome_flatpak env) @ t
         \<and> (t = [] \<or> t = snd (find_chrome_which env)))"
  by (auto simp: find_chrome_def case_prod_unfold Let_def split: option.splits sum.splits)

lemma snd_find_chrome_prefix:
  "\<exists>t. snd (find_chrome env files) = snd (scan_possiblePaths files possiblePaths) @ t"
  using snd_find_chrome_cases [of env files] by auto

lemma find_chrome_no_candidate:
  assumes "\<forall>p\<in>set possiblePaths. files p = None"
  shows "find_chrome env files =
     (case fst (find_chrome_flatpak env) of
        Inl e \<Rightarrow> (Inl e, map Exists possiblePaths @ snd (find_chrome_flatpak env))
      | Inr (Some r) \<Rightarrow> (Inr (Some r), map Exists possiblePaths @ snd (find_chrome_flatpak env))
      | Inr None \<Rightarrow>
          (Inr (fst (find_chrome_which env)),
           map Exists possiblePaths @ snd (find_chrome_flatpak env) @ snd (find_chrome_which env)))"
  using scan_possiblePaths_none [OF assms]
  by (simp add: find_chrome_def case_prod_unfold Let_def split: sum.splits option.splits)

lemma find_chrome_flatpak_Which:
  "Which cmd \<in> set (snd (find_chrome_flatpak env)) \<Longrightarrow> cmd = ''flatpak''"
  by (auto simp: find_chrome_flatpak_def case_prod_unfold Let_def split: sum.splits if_splits
           dest: scan_flatpak_apps_only_Log)

lemma find_chrome_which_chromium:
  "Which ''chromium'' \<in> set (snd (find_chrome_which env)) \<Longrightarrow>
     system env \<noteq> ''Windows'' \<and> (\<exists>w. which env ''google-chrome'' = Inr w \<and> \<not> truthy w)"
  by (auto simp: find_chrome_which_def split: sum.splits if_splits)

lemma find_chrome_Which_chromium:
  assumes "Which ''chromium'' \<in> set (snd (find_chrome env files))"
  shows "system env \<noteq> ''Windows'' \<and> (\<exists>w. which env ''google-chrome'' = Inr w \<and> \<not> truthy w)"
proof -
  from snd_find_chrome_cases [of env files] assms
  have "Which ''chromium'' \<in> set (snd (scan_possiblePaths files possiblePaths))
        \<or> Which ''chromium'' \<in> set (snd (find_chrome_flatpak env))
        \<or> Which ''chromium'' \<in> set (snd (find_chrome_which env))"
    by auto
  then have "Which ''chromium'' \<in> set (snd (find_chrome_which env))"
    by (auto dest: scan_possiblePaths_only_Exists find_chrome_flatpak_Which)
  then show ?thesis by (rule find_chrome_which_chromium)
qed

lemma find_chrome_which_no_warning: "Log WARNING m \<notin> set (snd (find_chrome_which env))"
  by (auto simp: find_chrome_which_def split: sum.splits)

lemma find_chrome_env_flatpak:
  "find_chrome env_flatpak Map.empty =
     (Inr (Some ''flatpak run com.google.Chrome''),
      map Exists possiblePaths
      @ [System, Which ''flatpak'', Run [''flatpak'', ''list'', ''--app''] 10,
         Log INFO ''Found Flatpak Chrome installation: com.google.Chrome''])"
  by (simp add: find_chrome_def possiblePaths_def find_chrome_flatpak_def
      env_flatpak_def env_bare_def flatpak_chrome_apps_def startswith_def)

text \<open>
  C4. \<open>find_chrome\<close> runs a subprocess only on Linux and only when
  \<^verbatim>\<open>shutil.which("flatpak")\<close> has given a non-empty path; the subprocess is
  \<^verbatim>\<open>flatpak list --app\<close> with a timeout of 10 seconds. So without \<^verbatim>\<open>flatpak\<close> on
  \<^verbatim>\<open>PATH\<close>, or on another platform, no process is spawned.
\<close>

theorem flatpak_list_only_on_linux_with_flatpak:
  assumes "Run args n \<in> set (snd (find_chrome env files))"
  shows "system env = ''Linux'' \<and> (\<exists>p. which env ''flatpak'' = Inr (Some p) \<and> p \<noteq> [])
         \<and> args = [''flatpak'', ''list'', ''--app''] \<and> n = 10"
proof -
  from snd_find_chrome_cases [of env files] assms
  have "Run args n \<in> set (snd (scan_possiblePaths files possiblePaths))
        \<or> Run args n \<in> set (snd (find_chrome_flatpak env))
        \<or> Run args n \<in> set (snd (find_chrome_which env))"
    by auto
  then have "Run args n \<in> set (snd (find_chrome_flatpak env))"
    using find_chrome_which_no_Run [of args n env]
    by (auto dest: scan_possiblePaths_only_Exists)
  then show ?thesis by (rule find_chrome_flatpak_Run)
qed

theorem flatpak_list_only_on_linux_with_flatpak_witness:
  "Run [''flatpak'', ''list'', ''--app''] 10 \<in> set (snd (find_chrome env_flatpak Map.empty))
   \<and> system env_flatpak = ''Linux''
   \<and> (\<exists>p. which env_flatpak ''flatpak'' = Inr (Some p) \<and> p \<noteq> [])"
proof -
  have h: "Run [''flatpak'', ''list'', ''--app''] 10
      \<in> set (snd (find_chrome env_flatpak Map.empty))"
    by (simp add: find_chrome_env_flatpak)
  show ?thesis
    using flatpak_list_only_on_linux_with_flatpak [OF h] h by blast
qed

subsection \<open>The lookup on \<^verbatim>\<open>PATH\<close>\<close>

text \<open>
  The Flatpak step neither returns nor raises exactly when the platform is not Linux, or
  \<^verbatim>\<open>flatpak\<close> is not on \<^verbatim>\<open>PATH\<close>, or the listing raises a \<^verbatim>\<open>SubprocessError\<close>
  (a timeout is one), or it ends with a return code other than 0, or its output holds
  neither application identifier.
\<close>

lemma fst_scan_flatpak_apps_None:
  "fst (scan_flatpak_apps out apps) = None \<longleftrightarrow> (\<forall>a\<in>set apps. \<not> contains out a)"
  by (induction apps) simp_all

lemma fst_find_chrome_flatpak_None:
  "fst (find_chrome_flatpak env) = Inr None \<longleftrightarrow>
     system env \<noteq> ''Linux''
     \<or> (\<exists>w. which env ''flatpak'' = Inr w \<and> \<not> truthy w)
     \<or> (\<exists>w. which env ''flatpak'' = Inr w \<and> truthy w
          \<and> ((\<exists>e. run env [''flatpak'', ''list'', ''--app''] = Inl e
                  \<and> (isinstance e TimeoutExpired \<or> isinstance e SubprocessError))
             \<or> (\<exists>r. run env [''flatpak'', ''list'', ''--app''] = Inr r
                  \<and> (returncode r \<noteq> 0
                     \<or> (\<forall>a\<in>set flatpak_chrome_apps. \<not> contains (stdout r) a)))))"
proof (cases "system env = ''Linux''")
  case False
  then show ?thesis by (simp add: find_chrome_flatpak_def)
next
  case True
  show ?thesis
  proof (cases "which env ''flatpak''")
    case (Inl e)
    with True show ?thesis by (simp add: find_chrome_flatpak_def)
  next
    case (Inr w)
    show ?thesis
    proof (cases "truthy w")
      case False
      with True Inr show ?thesis by (simp add: find_chrome_flatpak_def)
    next
      case t: True
      show ?thesis
      proof (cases "run env [''flatpak'', ''list'', ''--app'']")
        case (Inl e)
        with True Inr t show ?thesis by (simp add: find_chrome_flatpak_def)
      next
        case r: (Inr r)
        with True Inr t show ?thesis
          using fst_scan_flatpak_apps_None [of "stdout r" flatpak_chrome_apps]
          by (auto simp: find_chrome_flatpak_def case_prod_unfold Let_def)
      qed
    qed
  qed
qed

lemma find_chrome_which_Which:
  assumes "Which cmd \<in> set (snd (find_chrome_which env))"
  shows "(system env = ''Windows'' \<and> cmd = ''chrome'')
         \<or> (system env \<noteq> ''Windows'' \<and> (cmd = ''google-chrome'' \<or> cmd = ''chromium''))"
  using assms by (auto simp: find_chrome_which_def split: sum.splits if_splits)

lemma find_chrome_Which:
  assumes "Which cmd \<in> set (snd (find_chrome env files))"
  shows "cmd = ''flatpak'' \<or> (system env = ''Windows'' \<and> cmd = ''chrome'')
         \<or> (system env \<noteq> ''Windows'' \<and> (cmd = ''google-chrome'' \<or> cmd = ''chromium''))"
proof -
  from snd_find_chrome_cases [of env files] assms
  have "Which cmd \<in> set (snd (scan_possiblePaths files possiblePaths))
        \<or> Which cmd \<in> set (snd (find_chrome_flatpak env))
        \<or> Which cmd \<in> set (snd (find_chrome_which env))"
    by auto
  then show ?thesis
    using find_chrome_flatpak_Which [of cmd env] find_chrome_which_Which [of cmd env]
    by (auto dest: scan_possiblePaths_only_Exists)
qed

lemma find_chrome_which_cases:
  "(system env = ''Windows'' \<and> which env ''chrome'' = Inr v \<longrightarrow>
      find_chrome_which env = (if truthy v then v else None, [System, Which ''chrome'']))
   \<and> (system env = ''Windows'' \<and> which env ''chrome'' = Inl e \<longrightarrow>
      find_chrome_which env =
        (None, [System, Which ''chrome'',
                Log ERROR (''Error while searching system paths for Chrome: '' @ msg e)]))
   \<and> (system env \<noteq> ''Windows'' \<and> which env ''google-chrome'' = Inl e \<longrightarrow>
      find_chrome_which env =
        (None, [System, Which ''google-chrome'',
                Log ERROR (''Error while searching system paths for Chrome: '' @ msg e)]))
   \<and> (system env \<noteq> ''Windows'' \<and> which env ''google-chrome'' = Inr w \<and> truthy w \<longrightarrow>
      find_chrome_which env = (w, [System, Which ''google-chrome'']))
   \<and> (system env \<noteq> ''Windows'' \<and> which env ''google-chrome'' = Inr w \<and> \<not> truthy w
        \<and> which env ''chromium'' = Inr v \<longrightarrow>
      find_chrome_which env =
        (if truthy v then v else None, [System, Which ''google-chrome'', Which ''chromium'']))
   \<and> (system env \<noteq> ''Windows'' \<and> which env ''google-chrome'' = Inr w \<and> \<not> truthy w
        \<and> which env ''chromium'' = Inl e \<longrightarrow>
      find_chrome_which env =
        (None, [System, Which ''google-chrome'', Which ''chromium'',
                Log ERROR (''Error while searching system paths for Chrome: '' @ msg e)]))"
  by (simp add: find_chrome_which_def)

text \<open>
  C6. When no candidate path exists and the Flatpak step neither returns nor raises
  (\<open>fst_find_chrome_flatpak_None\<close> says when), the result and the calls of
  \<open>find_chrome\<close> are fixed in every case. On Windows \<^verbatim>\<open>chrome\<close> is the only command
  looked up: its path is returned when it is a non-empty string, \<^verbatim>\<open>None\<close> otherwise,
  and \<^verbatim>\<open>None\<close> after logging an error when the lookup raises. Elsewhere
  \<^verbatim>\<open>google-chrome\<close> is looked up first and its path returned when found;
  \<^verbatim>\<open>chromium\<close> is looked up only when \<^verbatim>\<open>google-chrome\<close> gave \<^verbatim>\<open>None\<close> or an empty
  string, and its path is returned when found, \<^verbatim>\<open>None\<close> otherwise; a lookup that
  raises is logged and gives \<^verbatim>\<open>None\<close>. \<^verbatim>\<open>chrome\<close> is never looked up off Windows,
  \<^verbatim>\<open>google-chrome\<close> and \<^verbatim>\<open>chromium\<close> never on Windows.
\<close>

theorem find_chrome_path_lookup:
  assumes none: "\<forall>p\<in>set possiblePaths. files p = None"
    and fall: "fst (find_chrome_flatpak env) = Inr None"
  shows "(system env = ''Windows'' \<and> which env ''chrome'' = Inr (Some p) \<and> p \<noteq> [] \<longrightarrow>
            find_chrome env files =
              (Inr (Some p),
               map Exists possiblePaths @ snd (find_chrome_flatpak env) @ [System, Which ''chrome'']))
       \<and> (system env \<noteq> ''Windows'' \<and> which env ''google-chrome'' = Inr (Some p) \<and> p \<noteq> [] \<longrightarrow>
            find_chrome env files =
              (Inr (Some p),
               map Exists possiblePaths @ snd (find_chrome_flatpak env)
               @ [System, Which ''google-chrome'']))
       \<and> (system env \<noteq> ''Windows'' \<and> which env ''google-chrome'' = Inr w \<and> \<not> truthy w
            \<and> which env ''chromium'' = Inr (Some p) \<and> p \<noteq> [] \<longrightarrow>
            find_chrome env files =
              (Inr (Some p),
               map Exists possiblePaths @ snd (find_chrome_flatpak env)
               @ [System, Which ''google-chrome'', Which ''chromium'']))
       \<and> (Which ''chromium'' \<in> set (snd (find_chrome env files)) \<longrightarrow>
            system env \<noteq> ''Windows'' \<and> (\<exists>w. which env ''google-chrome'' = Inr w \<and> \<not> truthy w))
       \<and> (system env = ''Windows'' \<and> which env ''chrome'' = Inr v \<longrightarrow>
            find_chrome env files =
              (Inr (if truthy v then v else None),
               map Exists possiblePaths @ snd (find_chrome_flatpak env) @ [System, Which ''chrome'']))
       \<and> (system env = ''Windows'' \<and> which env ''chrome'' = Inl e \<longrightarrow>
            find_chrome env files =
              (Inr None,
               map Exists possiblePaths @ snd (find_chrome_flatpak env)
               @ [System, Which ''chrome'',
                  Log ERROR (''Error while searching system paths for Chrome: '' @ msg e)]))
       \<and> (system env \<noteq> ''Windows'' \<and> which env ''google-chrome'' = Inl e \<longrightarrow>
            find_chrome env files =
              (Inr None,
               map Exists possiblePaths @ snd (find_chrome_flatpak env)
               @ [System, Which ''google-chrome'',
                  Log ERROR (''Error while searching system paths for Chrome: '' @ msg e)]))
       \<and> (system env \<noteq> ''Windows'' \<and> which env ''google-chrome'' = Inr w \<and> \<not> truthy w
            \<and> which env ''chromium'' = Inr v \<longrightarrow>
            find_chrome env files =
              (Inr (if truthy v then v else None),
               map Exists possiblePaths @ snd (find_chrome_flatpak env)
               @ [System, Which ''google-chrome'', Which ''chromium'']))
       \<and> (system env \<noteq> ''Windows'' \<and> which env ''google-chrome'' = Inr w \<and> \<not> truthy w
            \<and> which env ''chromium'' = Inl e \<longrightarrow>
            find_chrome env files =
              (Inr None,
               map Exists possiblePaths @ snd (find_chrome_flatpak env)
               @ [System, Which ''google-chrome'', Which ''chromium'',
                  Log ERROR (''Error while searching system paths for Chrome: '' @ msg e)]))
       \<and> (Which ''chrome'' \<in> set (snd (find_chrome env files)) \<longrightarrow> system env = ''Windows'')
       \<and> (Which ''google-chrome'' \<in> set (snd (find_chrome env files)) \<longrightarrow>
            system env \<noteq> ''Windows'')"
proof -
  have fc: "find_chrome_which env = (r, t) \<Longrightarrow> find_chrome env files =
      (Inr r, map Exists possiblePaths @ snd (find_chrome_flatpak env) @ t)" for r t
    using find_chrome_no_candidate [OF none, of env] fall by simp
  note cs = find_chrome_which_cases [of env]
  show ?thesis
  proof (intro conjI impI)
    assume "system env = ''Windows'' \<and> which env ''chrome'' = Inr (Some p) \<and> p \<noteq> []"
    then have "find_chrome_which env = (Some p, [System, Which ''chrome''])"
      by (simp add: find_chrome_which_def)
    then show "find_chrome env files =
        (Inr (Some p),
         map Exists possiblePaths @ snd (find_chrome_flatpak env) @ [System, Which ''chrome''])"
      by (rule fc)
  next
    assume "system env \<noteq> ''Windows'' \<and> which env ''google-chrome'' = Inr (Some p) \<and> p \<noteq> []"
    then have "find_chrome_which env = (Some p, [System, Which ''google-chrome''])"
      by (simp add: find_chrome_which_def)
    then show "find_chrome env files =
        (Inr (Some p),
         map Exists possiblePaths @ snd (find_chrome_flatpak env)
         @ [System, Which ''google-chrome''])"
      by (rule fc)
  next
    assume "system env \<noteq> ''Windows'' \<and> which env ''google-chrome'' = Inr w \<and> \<not> truthy w
      \<and> which env ''chromium'' = Inr (Some p) \<and> p \<noteq> []"
    then have "find_chrome_which env
        = (Some p, [System, Which ''google-chrome'', Which ''chromium''])"
      by (simp add: find_chrome_which_def)
    then show "find_chrome env files =
        (Inr (Some p),
         map Exists possiblePaths @ snd (find_chrome_flatpak env)
         @ [System, Which ''google-chrome'', Which ''chromium''])"
      by (rule fc)
  next
    assume "Which ''chromium'' \<in> set (snd (find_chrome env files))"
    then show "system env \<noteq> ''Windows''"
      using find_chrome_Which_chromium [of env files] by blast
  next
    assume "Which ''chromium'' \<in> set (snd (find_chrome env files))"
    then show "\<exists>w. which env ''google-chrome'' = Inr w \<and> \<not> truthy w"
      using find_chrome_Which_chromium [of env files] by blast
  next
    assume "system env = ''Windows'' \<and> which env ''chrome'' = Inr v"
    with cs [of v] have "find_chrome_which env
        = (if truthy v then v else None, [System, Which ''chrome''])" by blast
    then show "find_chrome env files =
        (Inr (if truthy v then v else None),
         map Exists possiblePaths @ snd (find_chrome_flatpak env) @ [System, Which ''chrome''])"
      by (rule fc)
  next
    assume "system env = ''Windows'' \<and> which env ''chrome'' = Inl e"
    with cs [of _ e] have "find_chrome_which env =
        (None, [System, Which ''chrome'',
                Log ERROR (''Error while searching system paths for Chrome: '' @ msg e)])"
      by blast
    then show "find_chrome env files =
        (Inr None,
         map Exists possiblePaths @ snd (find_chrome_flatpak env)
         @ [System, Which ''chrome'',
            Log ERROR (''Error while searching system paths for Chrome: '' @ msg e)])"
      by (rule fc)
  next
    assume "system env \<noteq> ''Windows'' \<and> which env ''google-chrome'' = Inl e"
    with cs [of _ e] have "find_chrome_which env =
        (None, [System, Which ''google-chrome'',
                Log ERROR (''Error while searching system paths for Chrome: '' @ msg e)])"
      by blast
    then show "find_chrome env files =
        (Inr None,
         map Exists possiblePaths @ snd (find_chrome_flatpak env)
         @ [System, Which ''google-chrome'',
            Log ERROR (''Error while searching system paths for Chrome: '' @ msg e)])"
      by (rule fc)
  next
    assume "system env \<noteq> ''Windows'' \<and> which env ''google-chrome'' = Inr w \<and> \<not> truthy w
      \<and> which env ''chromium'' = Inr v"
    with cs [of v _ w] have "find_chrome_which env =
        (if truthy v then v else None, [System, Which ''google-chrome'', Which ''chromium''])"
      by blast
    then show "find_chrome env files =
        (Inr (if truthy v then v else None),
         map Exists possiblePaths @ snd (find_chrome_flatpak env)
         @ [System, Which ''google-chrome'', Which ''chromium''])"
      by (rule fc)
  next
    assume "system env \<noteq> ''Windows'' \<and> which env ''google-chrome'' = Inr w \<and> \<not> truthy w
      \<and> which env ''chromium'' = Inl e"
    with cs [of _ e w] have "find_chrome_which env =
        (None, [System, Which ''google-chrome'', Which ''chromium'',
                Log ERROR (''Error while searching system paths for Chrome: '' @ msg e)])"
      by blast
    then show "find_chrome env files =
        (Inr None,
         map Exists possiblePaths @ snd (find_chrome_flatpak env)
         @ [System, Which ''google-chrome'', Which ''chromium'',
            Log ERROR (''Error while searching system paths for Chrome: '' @ msg e)])"
      by (rule fc)
  next
    assume "Which ''chrome'' \<in> set (snd (find_chrome env files))"
    then show "system env = ''Windows''"
      using find_chrome_Which [of "''chrome''" env files] by simp
  next
    assume "Which ''google-chrome'' \<in> set (snd (find_chrome env files))"
    then show "system env \<noteq> ''Windows''"
      using find_chrome_Which [of "''google-chrome''" env files] by simp
  qed
qed

text \<open>
  The scenario of the specification (no candidate path, \<^verbatim>\<open>flatpak\<close> lists no Chrome,
  \<^verbatim>\<open>google-chrome\<close> resolves to \<^verbatim>\<open>/usr/bin/google-chrome\<close>), a Windows host with
  \<^verbatim>\<open>chrome\<close>, a host with \<^verbatim>\<open>chromium\<close> only, and a Windows host with
  \<^verbatim>\<open>google-chrome\<close> only, where nothing is found.
\<close>

theorem find_chrome_path_lookup_witness:
  "find_chrome env_path_lookup Map.empty =
     (Inr (Some ''/usr/bin/google-chrome''),
      map Exists possiblePaths
      @ [System, Which ''flatpak'', Run [''flatpak'', ''list'', ''--app''] 10,
         System, Which ''google-chrome''])
   \<and> find_chrome env_windows Map.empty =
     (Inr (Some (win_path [''D:'', ''Tools'', ''chrome.EXE''])),
      map Exists possiblePaths @ [System, System, Which ''chrome''])
   \<and> find_chrome env_chromium Map.empty =
     (Inr (Some ''/opt/homebrew/bin/chromium''),
      map Exists possiblePaths @ [System, System, Which ''google-chrome'', Which ''chromium''])
   \<and> find_chrome env_windows_google_chrome Map.empty =
     (Inr None, map Exists possiblePaths @ [System, System, Which ''chrome''])"
proof -
  have none: "\<forall>p\<in>set possiblePaths. (Map.empty :: fs) p = None" by simp
  have f1: "find_chrome_flatpak env_path_lookup =
      (Inr None, [System, Which ''flatpak'', Run [''flatpak'', ''list'', ''--app''] 10])"
    by (simp add: find_chrome_flatpak_def env_path_lookup_def env_bare_def
        flatpak_chrome_apps_def startswith_def)
  have f2: "find_chrome_flatpak env_windows = (Inr None, [System])"
    by (simp add: find_chrome_flatpak_def env_windows_def env_bare_def)
  have f3: "find_chrome_flatpak env_chromium = (Inr None, [System])"
    by (simp add: find_chrome_flatpak_def env_chromium_def env_bare_def)
  have f4: "find_chrome_flatpak env_windows_google_chrome = (Inr None, [System])"
    by (simp add: find_chrome_flatpak_def env_windows_google_chrome_def env_bare_def)
  have h1: "system env_path_lookup \<noteq> ''Windows''
      \<and> which env_path_lookup ''google-chrome'' = Inr (Some ''/usr/bin/google-chrome'')
      \<and> ''/usr/bin/google-chrome'' \<noteq> []"
    by (simp add: env_path_lookup_def env_bare_def)
  have h2: "system env_windows = ''Windows''
      \<and> which env_windows ''chrome'' = Inr (Some (win_path [''D:'', ''Tools'', ''chrome.EXE'']))
      \<and> win_path [''D:'', ''Tools'', ''chrome.EXE''] \<noteq> []"
    by (simp add: env_windows_def env_bare_def)
  have h3: "system env_chromium \<noteq> ''Windows''
      \<and> which env_chromium ''google-chrome'' = Inr None \<and> \<not> truthy None
      \<and> which env_chromium ''chromium'' = Inr (Some ''/opt/homebrew/bin/chromium'')
      \<and> ''/opt/homebrew/bin/chromium'' \<noteq> []"
    by (simp add: env_chromium_def env_bare_def)
  have h4: "system env_windows_google_chrome = ''Windows''
      \<and> which env_windows_google_chrome ''chrome'' = Inr None"
    by (simp add: env_windows_google_chrome_def env_bare_def)
  have "find_chrome env_path_lookup Map.empty =
     (Inr (Some ''/usr/bin/google-chrome''),
      map Exists possiblePaths @ snd (find_chrome_flatpak env_path_lookup)
      @ [System, Which ''google-chrome''])"
    using find_chrome_path_lookup
      [of Map.empty env_path_lookup "''/usr/bin/google-chrome''" None None "Exn Exception []",
       OF none] h1 f1
    by (metis fst_conv)
  then have a: "find_chrome env_path_lookup Map.empty =
     (Inr (Some ''/usr/bin/google-chrome''),
      map Exists possiblePaths
      @ [System, Which ''flatpak'', Run [''flatpak'', ''list'', ''--app''] 10,
         System, Which ''google-chrome''])"
    by (simp add: f1)
  have "find_chrome env_windows Map.empty =
     (Inr (Some (win_path [''D:'', ''Tools'', ''chrome.EXE''])),
      map Exists possiblePaths @ snd (find_chrome_flatpak env_windows)
      @ [System, Which ''chrome''])"
    using find_chrome_path_lookup
      [of Map.empty env_windows "win_path [''D:'', ''Tools'', ''chrome.EXE'']" None None
          "Exn Exception []", OF none] h2 f2
    by (metis fst_conv)
  then have b: "find_chrome env_windows Map.empty =
     (Inr (Some (win_path [''D:'', ''Tools'', ''chrome.EXE''])),
      map Exists possiblePaths @ [System, System, Which ''chrome''])"
    by (simp add: f2)
  have "find_chrome env_chromium Map.empty =
     (Inr (Some ''/opt/homebrew/bin/chromium''),
      map Exists possiblePaths @ snd (find_chrome_flatpak env_chromium)
      @ [System, Which ''google-chrome'', Which ''chromium''])"
    using find_chrome_path_lookup
      [of Map.empty env_chromium "''/opt/homebrew/bin/chromium''" None None "Exn Exception []",
       OF none] h3 f3
    by (metis fst_conv)
  then have c: "find_chrome env_chromium Map.empty =
     (Inr (Some ''/opt/homebrew/bin/chromium''),
      map Exists possiblePaths @ [System, System, Which ''google-chrome'', Which ''chromium''])"
    by (simp add: f3)
  have "find_chrome env_windows_google_chrome Map.empty =
     (Inr (if truthy None then None else None),
      map Exists possiblePaths @ snd (find_chrome_flatpak env_windows_google_chrome)
      @ [System, Which ''chrome''])"
    using find_chrome_path_lookup
      [of Map.empty env_windows_google_chrome "[]" None None "Exn Exception []", OF none] h4 f4
    by (metis fst_conv)
  then have d: "find_chrome env_windows_google_chrome Map.empty =
     (Inr None, map Exists possiblePaths @ [System, System, Which ''chrome''])"
    by (simp add: f4)
  from a b c d show ?thesis by blast
qed

subsection \<open>A Flatpak listing that exits with an error code\<close>

text \<open>
  C9. When \<^verbatim>\<open>flatpak list --app\<close> ends with a return code other than 0,
  \<open>find_chrome\<close> goes on with the lookup on \<^verbatim>\<open>PATH\<close> right after the subprocess:
  its result and its calls do not depend on what the subprocess printed, and no warning
  is logged.
\<close>

theorem find_chrome_flatpak_nonzero_exit:
  assumes none: "\<forall>p\<in>set possiblePaths. files p = None"
    and linux: "system env = ''Linux''"
    and flatpak: "which env ''flatpak'' = Inr (Some f)" "f \<noteq> []"
    and result: "run env [''flatpak'', ''list'', ''--app''] = Inr result"
    and rc: "returncode result \<noteq> 0"
  shows "find_chrome env files =
           (Inr (fst (find_chrome_which env)),
            map Exists possiblePaths
            @ [System, Which ''flatpak'', Run [''flatpak'', ''list'', ''--app''] 10]
            @ snd (find_chrome_which env))
         \<and> find_chrome
             (env\<lparr>run := (run env)([''flatpak'', ''list'', ''--app''] := Inr (result\<lparr>stdout := out\<rparr>))\<rparr>)
             files = find_chrome env files
         \<and> (\<forall>m. Log WARNING m \<notin> set (snd (find_chrome env files)))"
proof -
  let ?env' = "env\<lparr>run := (run env)([''flatpak'', ''list'', ''--app''] := Inr (result\<lparr>stdout := out\<rparr>))\<rparr>"
  have fl: "find_chrome_flatpak env =
      (Inr None, [System, Which ''flatpak'', Run [''flatpak'', ''list'', ''--app''] 10])"
    using linux flatpak result rc by (simp add: find_chrome_flatpak_def)
  have fl': "find_chrome_flatpak ?env' =
      (Inr None, [System, Which ''flatpak'', Run [''flatpak'', ''list'', ''--app''] 10])"
    using linux flatpak result rc by (simp add: find_chrome_flatpak_def)
  have w: "find_chrome_which ?env' = find_chrome_which env"
    by (simp add: find_chrome_which_def split: sum.splits)
  have a: "find_chrome env files =
      (Inr (fst (find_chrome_which env)),
       map Exists possiblePaths
       @ [System, Which ''flatpak'', Run [''flatpak'', ''list'', ''--app''] 10]
       @ snd (find_chrome_which env))"
    using find_chrome_no_candidate [OF none, of env] by (simp add: fl)
  have b: "find_chrome ?env' files = find_chrome env files"
    using find_chrome_no_candidate [OF none, of ?env'] by (simp add: fl' w a)
  have c: "\<forall>m. Log WARNING m \<notin> set (snd (find_chrome env files))"
    unfolding a using find_chrome_which_no_warning [of _ env] by auto
  from a b c show ?thesis by blast
qed

theorem find_chrome_flatpak_nonzero_exit_witness:
  "find_chrome env_nonzero Map.empty =
     (Inr None,
      map Exists possiblePaths
      @ [System, Which ''flatpak'', Run [''flatpak'', ''list'', ''--app''] 10,
         System, Which ''google-chrome'', Which ''chromium''])"
proof -
  have none: "\<forall>p\<in>set possiblePaths. (Map.empty :: fs) p = None" by simp
  have w: "find_chrome_which env_nonzero =
      (None, [System, Which ''google-chrome'', Which ''chromium''])"
    by (simp add: find_chrome_which_def env_nonzero_def env_flatpak_def env_bare_def)
  show ?thesis
    using find_chrome_flatpak_nonzero_exit
      [OF none, of env_nonzero "''/usr/bin/flatpak''"
        "\<lparr>returncode = 1, stdout = ''Chrome com.google.Chrome stable system''\<rparr>" "[]"]
    by (simp add: w) (simp add: env_nonzero_def env_flatpak_def env_bare_def)
qed

subsection \<open>The candidate list\<close>

lemma fst_scan_possiblePaths:
  "fst (scan_possiblePaths files ps) = find (\<lambda>p. files p \<noteq> None) ps"
  by (induction ps) (simp_all add: case_prod_unfold)

lemma distinct_possiblePaths: "distinct possiblePaths"
  by (simp add: possiblePaths_def)

lemma find_nth_distinct:
  assumes "distinct ps" "i < length ps"
  shows "find P ps = Some (ps ! i) \<longleftrightarrow> (\<forall>p\<in>set (take i ps). \<not> P p) \<and> P (ps ! i)"
proof
  assume "find P ps = Some (ps ! i)"
  then obtain k where k: "k < length ps" "P (ps ! k)" "ps ! i = ps ! k" "\<forall>j<k. \<not> P (ps ! j)"
    unfolding find_Some_iff by blast
  have "k = i"
    using nth_eq_iff_index_eq [OF assms(1) assms(2) k(1)] k(3) by blast
  with k(2,4) assms(2) show "(\<forall>p\<in>set (take i ps). \<not> P p) \<and> P (ps ! i)"
    by (auto simp: in_set_conv_nth)
next
  assume h: "(\<forall>p\<in>set (take i ps). \<not> P p) \<and> P (ps ! i)"
  have "\<forall>j<i. \<not> P (ps ! j)"
  proof (intro allI impI)
    fix j assume "j < i"
    with assms have "ps ! j \<in> set (take i ps)"
      by (auto simp: in_set_conv_nth intro!: exI [of _ j])
    with h show "\<not> P (ps ! j)" by blast
  qed
  with h assms show "find P ps = Some (ps ! i)"
    unfolding find_Some_iff by blast
qed

text \<open>
  C10. The list has nine paths. Whatever the platform, the calls of \<open>find_chrome\<close>
  start with the existence tests of the candidates in list order, up to the first one
  that exists, and with all nine when none exists. The fourth candidate holds the text
  \<^verbatim>\<open>%USERNAME%\<close> as it stands, and the scan stops at it exactly when a file of that
  very name exists (and none of the first three does).
\<close>

theorem possiblePaths_scan_unfiltered:
  "length possiblePaths = 9
   \<and> possiblePaths ! 3 =
       win_path [''C:'', ''Users'', ''%USERNAME%'', ''AppData'', ''Local'', ''Google'', ''Chrome'',
                 ''Application'', ''chrome.exe'']
   \<and> (\<exists>t. snd (find_chrome env files) =
          map Exists (takeWhile (\<lambda>p. files p = None) possiblePaths
                      @ take 1 (dropWhile (\<lambda>p. files p = None) possiblePaths)) @ t)
   \<and> ((\<forall>p\<in>set possiblePaths. files p = None) \<longrightarrow>
        take 9 (snd (find_chrome env files)) = map Exists possiblePaths)
   \<and> (fst (scan_possiblePaths files possiblePaths) = Some (possiblePaths ! 3) \<longleftrightarrow>
        (\<forall>p\<in>set (take 3 possiblePaths). files p = None) \<and> files (possiblePaths ! 3) \<noteq> None)"
proof -
  have l: "length possiblePaths = 9" by (simp add: possiblePaths_def)
  have n: "possiblePaths ! 3 =
       win_path [''C:'', ''Users'', ''%USERNAME%'', ''AppData'', ''Local'', ''Google'', ''Chrome'',
                 ''Application'', ''chrome.exe'']"
    by (simp add: possiblePaths_def)
  have p: "\<exists>t. snd (find_chrome env files) =
          map Exists (takeWhile (\<lambda>p. files p = None) possiblePaths
                      @ take 1 (dropWhile (\<lambda>p. files p = None) possiblePaths)) @ t"
    using snd_find_chrome_prefix [of env files] unfolding snd_scan_possiblePaths .
  have a: "(\<forall>p\<in>set possiblePaths. files p = None) \<longrightarrow>
        take 9 (snd (find_chrome env files)) = map Exists possiblePaths"
  proof
    assume h: "\<forall>p\<in>set possiblePaths. files p = None"
    from snd_find_chrome_prefix [of env files] obtain t where
      "snd (find_chrome env files) = map Exists possiblePaths @ t"
      unfolding scan_possiblePaths_none [OF h] by auto
    then show "take 9 (snd (find_chrome env files)) = map Exists possiblePaths"
      using l by simp
  qed
  have s: "fst (scan_possiblePaths files possiblePaths) = Some (possiblePaths ! 3) \<longleftrightarrow>
        (\<forall>p\<in>set (take 3 possiblePaths). files p = None) \<and> files (possiblePaths ! 3) \<noteq> None"
    unfolding fst_scan_possiblePaths
    using find_nth_distinct [OF distinct_possiblePaths, of 3 "\<lambda>p. files p \<noteq> None"] l
    by simp
  from l n p a s show ?thesis by blast
qed

text \<open>
  On Windows and on macOS all nine paths are tested; Chrome in the profile directory of
  \<^verbatim>\<open>alice\<close> is not found by the fourth candidate.
\<close>

theorem possiblePaths_scan_unfiltered_witness:
  "take 9 (snd (find_chrome env_windows Map.empty)) = map Exists possiblePaths
   \<and> take 9 (snd (find_chrome env_chromium Map.empty)) = map Exists possiblePaths
   \<and> fst (scan_possiblePaths fs_alice possiblePaths) \<noteq> Some (possiblePaths ! 3)"
proof -
  have none: "\<forall>p\<in>set possiblePaths. (Map.empty :: fs) p = None" by simp
  have alice: "fs_alice (possiblePaths ! 3) = None"
    by (simp add: fs_alice_def possiblePaths_def)
  show ?thesis
    using possiblePaths_scan_unfiltered [of env_windows Map.empty]
      possiblePaths_scan_unfiltered [of env_chromium Map.empty]
      possiblePaths_scan_unfiltered [of env_bare fs_alice] none alice
    by blast
qed

subsection \<open>Exceptions that leave \<open>find_chrome\<close>\<close>

text \<open>
  An exception leaves \<open>find_chrome\<close> exactly when no candidate path exists, the
  platform is Linux, and either \<^verbatim>\<open>shutil.which("flatpak")\<close> raises (line 43 is outside
  every \<^verbatim>\<open>try\<close>) or \<^verbatim>\<open>subprocess.run\<close> raises an exception that is neither a
  \<^verbatim>\<open>TimeoutExpired\<close> nor a \<^verbatim>\<open>SubprocessError\<close>. A timeout is logged and the lookup on
  \<^verbatim>\<open>PATH\<close> follows; the lookup on \<^verbatim>\<open>PATH\<close> itself raises nothing.
\<close>

lemma fst_find_chrome_flatpak_Inl:
  "fst (find_chrome_flatpak env) = Inl e \<longleftrightarrow>
     system env = ''Linux''
     \<and> (which env ''flatpak'' = Inl e
        \<or> (\<exists>f. which env ''flatpak'' = Inr (Some f) \<and> f \<noteq> []
              \<and> run env [''flatpak'', ''list'', ''--app''] = Inl e
              \<and> \<not> isinstance e TimeoutExpired \<and> \<not> isinstance e SubprocessError))"
  by (auto simp: find_chrome_flatpak_def case_prod_unfold Let_def truthy_iff
           split: sum.splits if_splits)

lemma find_chrome_raises_iff:
  "fst (find_chrome env files) = Inl e \<longleftrightarrow>
     (\<forall>p\<in>set possiblePaths. files p = None) \<and> system env = ''Linux''
     \<and> (which env ''flatpak'' = Inl e
        \<or> (\<exists>f. which env ''flatpak'' = Inr (Some f) \<and> f \<noteq> []
              \<and> run env [''flatpak'', ''list'', ''--app''] = Inl e
              \<and> \<not> isinstance e TimeoutExpired \<and> \<not> isinstance e SubprocessError))"
proof (cases "\<forall>p\<in>set possiblePaths. files p = None")
  case True
  have "fst (find_chrome env files) = Inl e \<longleftrightarrow> fst (find_chrome_flatpak env) = Inl e"
    unfolding find_chrome_no_candidate [OF True]
    by (simp split: sum.splits option.splits)
  with True show ?thesis
    by (simp add: fst_find_chrome_flatpak_Inl)
next
  case False
  then have "\<exists>p\<in>set possiblePaths. files p \<noteq> None" by blast
  from scan_possiblePaths_found [OF this] obtain q t where
    "scan_possiblePaths files possiblePaths = (Some q, t)" by blast
  then have "fst (find_chrome env files) = Inr (Some q)"
    by (simp add: find_chrome_def)
  with False show ?thesis by simp
qed

lemma find_chrome_caught_proceeds:
  assumes "\<forall>p\<in>set possiblePaths. files p = None" "system env = ''Linux''"
    and "which env ''flatpak'' = Inr (Some f)" "f \<noteq> []"
    and "run env [''flatpak'', ''list'', ''--app''] = Inl e"
    and "isinstance e TimeoutExpired \<or> isinstance e SubprocessError"
  shows "find_chrome env files =
     (Inr (fst (find_chrome_which env)),
      map Exists possiblePaths
      @ [System, Which ''flatpak'', Run [''flatpak'', ''list'', ''--app''] 10,
         Log WARNING (''Error checking Flatpak installations: '' @ msg e)]
      @ snd (find_chrome_which env))"
proof -
  have "find_chrome_flatpak env =
      (Inr None,
       [System, Which ''flatpak'', Run [''flatpak'', ''list'', ''--app''] 10,
        Log WARNING (''Error checking Flatpak installations: '' @ msg e)])"
    using assms(2-6) by (simp add: find_chrome_flatpak_def)
  then show ?thesis
    using find_chrome_no_candidate [OF assms(1), of env] by simp
qed

lemma find_chrome_cong:
  assumes "system env' = system env" "which env' = which env" "run env' = run env"
  shows "find_chrome env' files = find_chrome env files"
proof -
  have "find_chrome_flatpak env' = find_chrome_flatpak env"
    by (simp only: find_chrome_flatpak_def assms)
  moreover have "find_chrome_which env' = find_chrome_which env"
    by (simp only: find_chrome_which_def assms)
  ultimately show ?thesis by (simp only: find_chrome_def)
qed

lemma find_chrome_env_spawn_fails:
  "find_chrome env_spawn_fails Map.empty =
     (Inl (Exn OSError ''[Errno 8] Exec format error: /usr/bin/flatpak''),
      map Exists possiblePaths
      @ [System, Which ''flatpak'', Run [''flatpak'', ''list'', ''--app''] 10])"
  by (simp add: find_chrome_def possiblePaths_def find_chrome_flatpak_def
      env_spawn_fails_def env_flatpak_def env_bare_def isinstance_def)

text \<open>
  C5. The handler of line 56 catches \<^verbatim>\<open>TimeoutExpired\<close> and \<^verbatim>\<open>SubprocessError\<close>.
  When \<^verbatim>\<open>flatpak\<close> cannot be executed, \<^verbatim>\<open>subprocess.run\<close> raises \<^verbatim>\<open>OSError\<close>,
  which is neither: the exception leaves \<open>find_chrome\<close>, nothing is logged and
  \<^verbatim>\<open>PATH\<close> is not searched.
\<close>

theorem find_chrome_spawn_failure_propagates:
  "system env_spawn_fails = ''Linux''
   \<and> which env_spawn_fails ''flatpak'' = Inr (Some ''/usr/bin/flatpak'')
   \<and> run env_spawn_fails [''flatpak'', ''list'', ''--app'']
       = Inl (Exn OSError ''[Errno 8] Exec format error: /usr/bin/flatpak'')
   \<and> \<not> isinstance (Exn OSError ''[Errno 8] Exec format error: /usr/bin/flatpak'') SubprocessError
   \<and> find_chrome env_spawn_fails Map.empty =
       (Inl (Exn OSError ''[Errno 8] Exec format error: /usr/bin/flatpak''),
        map Exists possiblePaths
        @ [System, Which ''flatpak'', Run [''flatpak'', ''list'', ''--app''] 10])"
  by (simp add: find_chrome_env_spawn_fails)
     (simp add: env_spawn_fails_def env_flatpak_def env_bare_def isinstance_def)

subsection \<open>\<open>create_driver\<close>\<close>

lemma find_chrome_events:
  assumes "ev \<in> set (snd (find_chrome env files))"
  shows "(\<exists>p. ev = Exists p) \<or> ev = System \<or> (\<exists>c. ev = Which c) \<or> (\<exists>a n. ev = Run a n)
         \<or> (\<exists>l m. ev = Log l m)"
proof -
  have f: "e \<in> set (snd (find_chrome_flatpak env)) \<Longrightarrow>
      e = System \<or> (\<exists>c. e = Which c) \<or> (\<exists>a n. e = Run a n) \<or> (\<exists>l m. e = Log l m)" for e
    by (auto simp: find_chrome_flatpak_def case_prod_unfold Let_def split: sum.splits if_splits
             dest: scan_flatpak_apps_only_Log)
  have w: "e \<in> set (snd (find_chrome_which env)) \<Longrightarrow>
      e = System \<or> (\<exists>c. e = Which c) \<or> (\<exists>l m. e = Log l m)" for e
    by (auto simp: find_chrome_which_def split: sum.splits if_splits)
  from snd_find_chrome_cases [of env files] assms
  have "ev \<in> set (snd (scan_possiblePaths files possiblePaths))
        \<or> ev \<in> set (snd (find_chrome_flatpak env))
        \<or> ev \<in> set (snd (find_chrome_which env))"
    by auto
  then show ?thesis
    using f [of ev] w [of ev] scan_possiblePaths_only_Exists [of ev files possiblePaths]
    by blast
qed

lemma find_chrome_no_Unlink: "Unlink q \<notin> set (snd (find_chrome env files))"
  using find_chrome_events [of "Unlink q" env files] by auto

lemma startswith_nonempty: "startswith p ''flatpak run'' \<Longrightarrow> p \<noteq> []"
  by (auto simp: startswith_def)

lemma create_flatpak_wrapper_script_ok:
  assumes "NamedTemporaryFile env = Inr name" "write_error env = None" "chmod_error env = None"
  shows "create_flatpak_wrapper_script env cmd files =
     (Inr (name @ ''.sh''),
      files(name @ ''.sh'' \<mapsto> \<lparr>content = wrapper_content cmd, mode = 493\<rparr>),
      [TempFile ''.sh'', Write (name @ ''.sh'') (wrapper_content cmd), Chmod (name @ ''.sh'') 493,
       Log INFO (''Created Flatpak wrapper script at: '' @ name @ ''.sh'')])"
  using assms by (simp add: create_flatpak_wrapper_script_def Let_def)

lemma create_driver_fallback:
  assumes "Chrome env (get_options env) None = Inl e0"
    and "find_chrome env files = (Inr (Some p), t1)" and "p \<noteq> []"
  shows "create_driver env files =
     (case create_driver_with_path env files p of
        (Some d, files1, t2) \<Rightarrow>
          (Inr d, files1,
           [ChromeCall (get_options env) None,
            Log WARNING ''Default ChromeDriver creation failed. Trying alternative paths...'']
           @ t1 @ t2)
      | (None, files1, t2) \<Rightarrow>
          (Inl terminal_error, files1,
           [ChromeCall (get_options env) None,
            Log WARNING ''Default ChromeDriver creation failed. Trying alternative paths...'']
           @ t1 @ t2))"
  using assms by (simp add: create_driver_def Let_def split: prod.splits option.splits)

lemma create_driver_with_path_flatpak:
  assumes "startswith p ''flatpak run''"
    and "NamedTemporaryFile env = Inr name" "write_error env = None" "chmod_error env = None"
  shows "create_driver_with_path env files p =
     (let wp = name @ ''.sh'';
          files1 = files(wp \<mapsto> \<lparr>content = wrapper_content p, mode = 493\<rparr>);
          opts = \<lparr>arguments = arguments (get_options env)
                     @ [''--disable-dev-shm-usage'', ''--disable-setuid-sandbox''],
                  binary_location = wp\<rparr>;
          t = [TempFile ''.sh'', Write wp (wrapper_content p), Chmod wp 493,
               Log INFO (''Created Flatpak wrapper script at: '' @ wp),
               ChromeCall opts (Some wp)]
      in case Chrome env opts (Some wp) of
           Inr d \<Rightarrow>
             (Some d, files1,
              t @ [Log INFO (''ChromeDriver started using Flatpak Chrome: '' @ p)])
         | Inl e \<Rightarrow>
             (None,
              (case unlink_error env of None \<Rightarrow> files1(wp := None) | Some _ \<Rightarrow> files1),
              t @ [Log ERROR (''ChromeDriver failed using Flatpak Chrome '' @ p @ '': '' @ msg e),
                   Exists wp, Unlink wp]))"
proof -
  have o: "add_argument ''--disable-setuid-sandbox''
        (add_argument ''--disable-dev-shm-usage''
          ((get_options env)\<lparr>binary_location := name @ ''.sh''\<rparr>))
      = \<lparr>arguments = arguments (get_options env)
                     @ [''--disable-dev-shm-usage'', ''--disable-setuid-sandbox''],
         binary_location = name @ ''.sh''\<rparr>"
    by (simp add: add_argument_def)
  show ?thesis
    using assms(1)
    by (simp add: create_driver_with_path_def create_flatpak_wrapper_script_ok [OF assms(2-4)]
        Let_def o split: sum.splits option.splits)
qed

text \<open>
  When creating the script raises, nothing is deleted, no second construction is
  attempted and the terminal error is raised.
\<close>

lemma create_driver_wrapper_creation_fails:
  assumes "Chrome env (get_options env) None = Inl e0"
    and "find_chrome env files = (Inr (Some p), t1)"
    and "startswith p ''flatpak run''"
    and "create_flatpak_wrapper_script env p files = (Inl e, files1, t2)"
  shows "create_driver env files =
     (Inl terminal_error, files1,
      [ChromeCall (get_options env) None,
       Log WARNING ''Default ChromeDriver creation failed. Trying alternative paths...'']
      @ t1 @ t2
      @ [Log ERROR (''ChromeDriver failed using Flatpak Chrome '' @ p @ '': '' @ msg e)])"
proof -
  have ne: "p \<noteq> []" using assms(3) by (rule startswith_nonempty)
  have "create_driver_with_path env files p =
      (None, files1,
       t2 @ [Log ERROR (''ChromeDriver failed using Flatpak Chrome '' @ p @ '': '' @ msg e)])"
    using assms(3,4) by (simp add: create_driver_with_path_def)
  then show ?thesis
    unfolding create_driver_fallback [OF assms(1,2) ne] by simp
qed

text \<open>
  When the default construction fails and \<open>find_chrome\<close> returns \<^verbatim>\<open>None\<close>, the
  terminal error is raised and no further construction is attempted. An exception that
  leaves \<open>create_driver\<close> is the terminal error or one that left \<open>find_chrome\<close>.
\<close>

lemma create_driver_not_found:
  assumes "Chrome env (get_options env) None = Inl e0"
    and "find_chrome env files = (Inr None, t1)"
  shows "create_driver env files =
     (Inl terminal_error, files,
      [ChromeCall (get_options env) None,
       Log WARNING ''Default ChromeDriver creation failed. Trying alternative paths...'']
      @ t1
      @ [Log ERROR ''No Chrome executable found in known paths or Flatpak installations.''])"
  using assms by (simp add: create_driver_def Let_def)

lemma create_driver_raises:
  assumes "fst (create_driver env files) = Inl e"
  shows "e = terminal_error \<or> fst (find_chrome env files) = Inl e"
  using assms
  by (auto simp: create_driver_def Let_def case_prod_unfold
           split: sum.splits option.splits if_splits)

text \<open>
  C1. \<open>find_chrome\<close> is called inside the handler of line 117 and outside every
  inner \<^verbatim>\<open>try\<close>. On the host where \<^verbatim>\<open>flatpak\<close> cannot be executed, the \<^verbatim>\<open>OSError\<close>
  that leaves \<open>find_chrome\<close> leaves \<open>create_driver\<close> too: the caller gets
  neither a driver nor the terminal error.
\<close>

theorem create_driver_spawn_failure_propagates:
  "create_driver env_spawn_fails Map.empty =
     (Inl (Exn OSError ''[Errno 8] Exec format error: /usr/bin/flatpak''),
      Map.empty,
      [ChromeCall
         \<lparr>arguments = [''--start-maximised'', ''--disable-extensions'', ''--disable-gpu'',
                       ''--no-sandbox''],
          binary_location = []\<rparr> None,
       Log WARNING ''Default ChromeDriver creation failed. Trying alternative paths...'']
      @ map Exists possiblePaths
      @ [System, Which ''flatpak'', Run [''flatpak'', ''list'', ''--app''] 10])
   \<and> Exn OSError ''[Errno 8] Exec format error: /usr/bin/flatpak'' \<noteq> terminal_error"
proof -
  have env: "environ env_spawn_fails = Map.empty"
    by (simp add: env_spawn_fails_def env_flatpak_def env_bare_def)
  have default: "Chrome env_spawn_fails opts None
      = Inl (Exn Exception ''cannot connect to chrome'')" for opts
    by (simp add: env_spawn_fails_def env_flatpak_def env_bare_def)
  show ?thesis
    by (simp add: create_driver_def Let_def default find_chrome_env_spawn_fails
        get_options_no_environ [OF env] terminal_error_def)
qed

text \<open>
  C7, as stated, fails when the temporary file cannot be created: \<open>find_chrome\<close>
  has returned the Flatpak invocation, no script is on disk afterwards, no second
  construction is attempted and the terminal error is raised.
\<close>

theorem create_driver_wrapper_creation_fails_counterexample:
  "fst (find_chrome env_tmp_fails Map.empty) = Inr (Some ''flatpak run com.google.Chrome'')
   \<and> startswith ''flatpak run com.google.Chrome'' ''flatpak run''
   \<and> create_driver env_tmp_fails Map.empty =
     (Inl terminal_error, Map.empty,
      [ChromeCall
         \<lparr>arguments = [''--start-maximised'', ''--disable-extensions'', ''--disable-gpu'',
                       ''--no-sandbox''],
          binary_location = []\<rparr> None,
       Log WARNING ''Default ChromeDriver creation failed. Trying alternative paths...'']
      @ map Exists possiblePaths
      @ [System, Which ''flatpak'', Run [''flatpak'', ''list'', ''--app''] 10,
         Log INFO ''Found Flatpak Chrome installation: com.google.Chrome'',
         TempFile ''.sh'',
         Log ERROR ''ChromeDriver failed using Flatpak Chrome flatpak run com.google.Chrome: [Errno 28] No space left on device''])"
proof -
  have env: "environ env_tmp_fails = Map.empty"
    "NamedTemporaryFile env_tmp_fails = Inl (Exn OSError ''[Errno 28] No space left on device'')"
    by (simp_all add: env_tmp_fails_def env_flatpak_def env_bare_def)
  have default: "Chrome env_tmp_fails (get_options env_tmp_fails) None
      = Inl (Exn Exception ''cannot connect to chrome'')"
    by (simp add: env_tmp_fails_def env_flatpak_def env_bare_def)
  have found: "find_chrome env_tmp_fails Map.empty =
     (Inr (Some ''flatpak run com.google.Chrome''),
      map Exists possiblePaths
      @ [System, Which ''flatpak'', Run [''flatpak'', ''list'', ''--app''] 10,
         Log INFO ''Found Flatpak Chrome installation: com.google.Chrome''])"
    using find_chrome_cong [of env_tmp_fails env_flatpak Map.empty]
    by (simp add: env_tmp_fails_def find_chrome_env_flatpak)
  have flatpak: "startswith ''flatpak run com.google.Chrome'' ''flatpak run''"
    by (simp add: startswith_def)
  have w: "create_driver_with_path env_tmp_fails Map.empty ''flatpak run com.google.Chrome'' =
      (None, Map.empty,
       [TempFile ''.sh'',
        Log ERROR ''ChromeDriver failed using Flatpak Chrome flatpak run com.google.Chrome: [Errno 28] No space left on device''])"
    by (simp add: create_driver_with_path_def flatpak create_flatpak_wrapper_script_def env(2))
  have "create_driver env_tmp_fails Map.empty =
     (Inl terminal_error, Map.empty,
      [ChromeCall (get_options env_tmp_fails) None,
       Log WARNING ''Default ChromeDriver creation failed. Trying alternative paths...'']
      @ map Exists possiblePaths
      @ [System, Which ''flatpak'', Run [''flatpak'', ''list'', ''--app''] 10,
         Log INFO ''Found Flatpak Chrome installation: com.google.Chrome'',
         TempFile ''.sh'',
         Log ERROR ''ChromeDriver failed using Flatpak Chrome flatpak run com.google.Chrome: [Errno 28] No space left on device''])"
    unfolding create_driver_fallback [OF default found list.simps(3)] w by simp
  with found flatpak show ?thesis
    by (simp add: get_options_no_environ [OF env(1)])
qed

text \<open>
  C7, amended. When the default construction has failed, \<open>find_chrome\<close> returns a
  string that starts with \<^verbatim>\<open>flatpak run\<close>, and the temporary file is created, written
  and made executable without error, then the script holds the two lines
  \<^verbatim>\<open>#!/bin/bash\<close> and \<^verbatim>\<open>exec <command> "$@"\<close>, has mode 0755, and the second
  construction gets it as binary location and as browser executable path, with the
  options of \<open>get_options\<close> followed by \<^verbatim>\<open>--disable-dev-shm-usage\<close> and
  \<^verbatim>\<open>--disable-setuid-sandbox\<close>.
\<close>

theorem create_driver_flatpak_wrapper:
  assumes default: "Chrome env (get_options env) None = Inl e0"
    and found: "find_chrome env files = (Inr (Some p), t1)"
    and flatpak: "startswith p ''flatpak run''"
    and tmp: "NamedTemporaryFile env = Inr name" "write_error env = None" "chmod_error env = None"
  shows \<open>wrapper_content p = ''#!/bin/bash\<newline>exec '' @ p @ '' "$@"\<newline>''
     \<and> create_flatpak_wrapper_script env p files =
         (Inr (name @ ''.sh''),
          files(name @ ''.sh'' \<mapsto> \<lparr>content = wrapper_content p, mode = 7 * 64 + 5 * 8 + 5\<rparr>),
          [TempFile ''.sh'', Write (name @ ''.sh'') (wrapper_content p),
           Chmod (name @ ''.sh'') (7 * 64 + 5 * 8 + 5),
           Log INFO (''Created Flatpak wrapper script at: '' @ name @ ''.sh'')])
     \<and> (\<exists>r files' t3. create_driver env files =
           (r, files',
            [ChromeCall (get_options env) None,
             Log WARNING ''Default ChromeDriver creation failed. Trying alternative paths...'']
            @ t1
            @ [TempFile ''.sh'', Write (name @ ''.sh'') (wrapper_content p),
               Chmod (name @ ''.sh'') (7 * 64 + 5 * 8 + 5),
               Log INFO (''Created Flatpak wrapper script at: '' @ name @ ''.sh''),
               ChromeCall
                 \<lparr>arguments = arguments (get_options env)
                    @ [''--disable-dev-shm-usage'', ''--disable-setuid-sandbox''],
                  binary_location = name @ ''.sh''\<rparr>
                 (Some (name @ ''.sh''))]
            @ t3))\<close>
proof -
  have a: \<open>wrapper_content p = ''#!/bin/bash\<newline>exec '' @ p @ '' "$@"\<newline>''\<close>
    by (simp add: wrapper_content_def)
  have b: "create_flatpak_wrapper_script env p files =
         (Inr (name @ ''.sh''),
          files(name @ ''.sh'' \<mapsto> \<lparr>content = wrapper_content p, mode = 7 * 64 + 5 * 8 + 5\<rparr>),
          [TempFile ''.sh'', Write (name @ ''.sh'') (wrapper_content p),
           Chmod (name @ ''.sh'') (7 * 64 + 5 * 8 + 5),
           Log INFO (''Created Flatpak wrapper script at: '' @ name @ ''.sh'')])"
    using create_flatpak_wrapper_script_ok [OF tmp, of p files] by simp
  have ne: "p \<noteq> []" using flatpak by (rule startswith_nonempty)
  have c: "\<exists>r files' t3. create_driver env files =
           (r, files',
            [ChromeCall (get_options env) None,
             Log WARNING ''Default ChromeDriver creation failed. Trying alternative paths...'']
            @ t1
            @ [TempFile ''.sh'', Write (name @ ''.sh'') (wrapper_content p),
               Chmod (name @ ''.sh'') (7 * 64 + 5 * 8 + 5),
               Log INFO (''Created Flatpak wrapper script at: '' @ name @ ''.sh''),
               ChromeCall
                 \<lparr>arguments = arguments (get_options env)
                    @ [''--disable-dev-shm-usage'', ''--disable-setuid-sandbox''],
                  binary_location = name @ ''.sh''\<rparr>
                 (Some (name @ ''.sh''))]
            @ t3)"
    unfolding create_driver_fallback [OF default found ne]
      create_driver_with_path_flatpak [OF flatpak tmp]
    by (simp add: Let_def split: sum.splits)
  from a b c show ?thesis by blast
qed

theorem create_driver_flatpak_wrapper_witness:
  \<open>create_driver env_flatpak_ok Map.empty =
     (Inr 1,
      [''/tmp/tmpk3x9q2vd.sh'' \<mapsto>
         \<lparr>content = ''#!/bin/bash\<newline>exec flatpak run com.google.Chrome "$@"\<newline>'',
          mode = 493\<rparr>],
      [ChromeCall
         \<lparr>arguments = [''--start-maximised'', ''--disable-extensions'', ''--disable-gpu'',
                       ''--no-sandbox''],
          binary_location = []\<rparr> None,
       Log WARNING ''Default ChromeDriver creation failed. Trying alternative paths...'']
      @ map Exists possiblePaths
      @ [System, Which ''flatpak'', Run [''flatpak'', ''list'', ''--app''] 10,
         Log INFO ''Found Flatpak Chrome installation: com.google.Chrome'',
         TempFile ''.sh'',
         Write ''/tmp/tmpk3x9q2vd.sh''
           ''#!/bin/bash\<newline>exec flatpak run com.google.Chrome "$@"\<newline>'',
         Chmod ''/tmp/tmpk3x9q2vd.sh'' 493,
         Log INFO ''Created Flatpak wrapper script at: /tmp/tmpk3x9q2vd.sh'',
         ChromeCall
           \<lparr>arguments = [''--start-maximised'', ''--disable-extensions'', ''--disable-gpu'',
                         ''--no-sandbox'', ''--disable-dev-shm-usage'',
                         ''--disable-setuid-sandbox''],
            binary_location = ''/tmp/tmpk3x9q2vd.sh''\<rparr>
           (Some ''/tmp/tmpk3x9q2vd.sh''),
         Log INFO ''ChromeDriver started using Flatpak Chrome: flatpak run com.google.Chrome''])\<close>
proof -
  have env: "environ env_flatpak_ok = Map.empty"
    "NamedTemporaryFile env_flatpak_ok = Inr ''/tmp/tmpk3x9q2vd''"
    "write_error env_flatpak_ok = None" "chmod_error env_flatpak_ok = None"
    by (simp_all add: env_flatpak_ok_def env_flatpak_def env_bare_def)
  have default: "Chrome env_flatpak_ok (get_options env_flatpak_ok) None
      = Inl (Exn Exception ''cannot connect to chrome'')"
    by (simp add: env_flatpak_ok_def)
  have found: "find_chrome env_flatpak_ok Map.empty =
     (Inr (Some ''flatpak run com.google.Chrome''),
      map Exists possiblePaths
      @ [System, Which ''flatpak'', Run [''flatpak'', ''list'', ''--app''] 10,
         Log INFO ''Found Flatpak Chrome installation: com.google.Chrome''])"
    using find_chrome_cong [of env_flatpak_ok env_flatpak Map.empty]
    by (simp add: env_flatpak_ok_def find_chrome_env_flatpak)
  have flatpak: "startswith ''flatpak run com.google.Chrome'' ''flatpak run''"
    by (simp add: startswith_def)
  have retry: "Chrome env_flatpak_ok opts (Some path) = Inr 1" for opts path
    by (simp add: env_flatpak_ok_def)
  have ev: "create_driver env_flatpak_ok Map.empty =
     (Inr 1,
      [''/tmp/tmpk3x9q2vd.sh'' \<mapsto>
         \<lparr>content = wrapper_content ''flatpak run com.google.Chrome'', mode = 493\<rparr>],
      [ChromeCall (get_options env_flatpak_ok) None,
       Log WARNING ''Default ChromeDriver creation failed. Trying alternative paths...'']
      @ map Exists possiblePaths
      @ [System, Which ''flatpak'', Run [''flatpak'', ''list'', ''--app''] 10,
         Log INFO ''Found Flatpak Chrome installation: com.google.Chrome'',
         TempFile ''.sh'',
         Write ''/tmp/tmpk3x9q2vd.sh'' (wrapper_content ''flatpak run com.google.Chrome''),
         Chmod ''/tmp/tmpk3x9q2vd.sh'' 493,
         Log INFO ''Created Flatpak wrapper script at: /tmp/tmpk3x9q2vd.sh'',
         ChromeCall
           \<lparr>arguments = arguments (get_options env_flatpak_ok)
                 @ [''--disable-dev-shm-usage'', ''--disable-setuid-sandbox''],
            binary_location = ''/tmp/tmpk3x9q2vd.sh''\<rparr>
           (Some ''/tmp/tmpk3x9q2vd.sh''),
         Log INFO ''ChromeDriver started using Flatpak Chrome: flatpak run com.google.Chrome''])"
    unfolding create_driver_fallback [OF default found list.simps(3)]
      create_driver_with_path_flatpak [OF flatpak env(2-4)]
    by (simp add: Let_def retry)
  show ?thesis
    using create_driver_flatpak_wrapper [OF default found flatpak env(2-4)]
    by (simp add: ev get_options_no_environ [OF env(1)] wrapper_content_def)
qed

text \<open>
  C8. On the Flatpak path, once the script is created: if the second construction
  fails, \<open>create_driver\<close> raises the terminal error, its last two calls are the
  existence test and the deletion of the script, and the script is gone unless the
  deletion itself raised (which is swallowed); if the second construction succeeds, the
  driver is returned, no deletion is attempted and the script stays on disk. The rest of
  the disk is unchanged.
\<close>

theorem create_driver_wrapper_cleanup:
  assumes default: "Chrome env (get_options env) None = Inl e0"
    and found: "find_chrome env files = (Inr (Some p), t1)"
    and flatpak: "startswith p ''flatpak run''"
    and tmp: "NamedTemporaryFile env = Inr name" "write_error env = None" "chmod_error env = None"
  shows "(case Chrome env
            \<lparr>arguments = arguments (get_options env)
               @ [''--disable-dev-shm-usage'', ''--disable-setuid-sandbox''],
             binary_location = name @ ''.sh''\<rparr>
            (Some (name @ ''.sh'')) of
          Inr d \<Rightarrow>
            fst (create_driver env files) = Inr d
            \<and> fst (snd (create_driver env files)) =
                files(name @ ''.sh'' \<mapsto> \<lparr>content = wrapper_content p, mode = 493\<rparr>)
            \<and> Unlink (name @ ''.sh'') \<notin> set (snd (snd (create_driver env files)))
        | Inl e \<Rightarrow>
            fst (create_driver env files) = Inl terminal_error
            \<and> (\<exists>t. snd (snd (create_driver env files)) =
                  t @ [Exists (name @ ''.sh''), Unlink (name @ ''.sh'')])
            \<and> fst (snd (create_driver env files)) =
                (case unlink_error env of
                   None \<Rightarrow> files(name @ ''.sh'' := None)
                 | Some _ \<Rightarrow>
                     files(name @ ''.sh'' \<mapsto> \<lparr>content = wrapper_content p, mode = 493\<rparr>)))"
proof -
  have ne: "p \<noteq> []" using flatpak by (rule startswith_nonempty)
  have t1: "Unlink (name @ ''.sh'') \<notin> set t1"
    using find_chrome_no_Unlink [of "name @ ''.sh''" env files] found by simp
  show ?thesis
    unfolding create_driver_fallback [OF default found ne]
      create_driver_with_path_flatpak [OF flatpak tmp]
    using t1 by (simp add: Let_def split: sum.splits option.splits)
qed

text \<open>
  The three cases: the construction fails and the script is deleted; it fails and the
  deletion raises; it succeeds.
\<close>

theorem create_driver_wrapper_cleanup_witness:
  \<open>fst (create_driver env_flatpak Map.empty) = Inl terminal_error
   \<and> fst (snd (create_driver env_flatpak Map.empty)) = Map.empty
   \<and> fst (create_driver env_unlink_fails Map.empty) = Inl terminal_error
   \<and> fst (snd (create_driver env_unlink_fails Map.empty)) =
       [''/tmp/tmpk3x9q2vd.sh'' \<mapsto>
          \<lparr>content = ''#!/bin/bash\<newline>exec flatpak run com.google.Chrome "$@"\<newline>'',
           mode = 493\<rparr>]
   \<and> fst (create_driver env_flatpak_ok Map.empty) = Inr 1
   \<and> fst (snd (create_driver env_flatpak_ok Map.empty)) =
       [''/tmp/tmpk3x9q2vd.sh'' \<mapsto>
          \<lparr>content = ''#!/bin/bash\<newline>exec flatpak run com.google.Chrome "$@"\<newline>'',
           mode = 493\<rparr>]\<close>
proof -
  have flatpak: "startswith ''flatpak run com.google.Chrome'' ''flatpak run''"
    by (simp add: startswith_def)
  have e1: "NamedTemporaryFile env_flatpak = Inr ''/tmp/tmpk3x9q2vd''"
    "write_error env_flatpak = None" "chmod_error env_flatpak = None"
    "unlink_error env_flatpak = None"
    "Chrome env_flatpak opts path = Inl (Exn Exception ''cannot connect to chrome'')"
    for opts path
    by (simp_all add: env_flatpak_def env_bare_def)
  have e2: "NamedTemporaryFile env_unlink_fails = Inr ''/tmp/tmpk3x9q2vd''"
    "write_error env_unlink_fails = None" "chmod_error env_unlink_fails = None"
    "unlink_error env_unlink_fails = Some (Exn OSError ''[Errno 13] Permission denied'')"
    "Chrome env_unlink_fails opts path = Inl (Exn Exception ''cannot connect to chrome'')"
    for opts path
    by (simp_all add: env_unlink_fails_def env_flatpak_def env_bare_def)
  have e3: "NamedTemporaryFile env_flatpak_ok = Inr ''/tmp/tmpk3x9q2vd''"
    "write_error env_flatpak_ok = None" "chmod_error env_flatpak_ok = None"
    "Chrome env_flatpak_ok opts None = Inl (Exn Exception ''cannot connect to chrome'')"
    "Chrome env_flatpak_ok opts (Some q) = Inr 1"
    for opts q
    by (simp_all add: env_flatpak_ok_def env_flatpak_def env_bare_def)
  have f2: "find_chrome env_unlink_fails Map.empty = find_chrome env_flatpak Map.empty"
    by (rule find_chrome_cong) (simp_all add: env_unlink_fails_def)
  have f3: "find_chrome env_flatpak_ok Map.empty = find_chrome env_flatpak Map.empty"
    by (rule find_chrome_cong) (simp_all add: env_flatpak_ok_def)
  show ?thesis
    using create_driver_wrapper_cleanup
        [OF e1(5) find_chrome_env_flatpak flatpak e1(1-3)]
      create_driver_wrapper_cleanup
        [OF e2(5) f2 [unfolded find_chrome_env_flatpak] flatpak e2(1-3)]
      create_driver_wrapper_cleanup
        [OF e3(4) f3 [unfolded find_chrome_env_flatpak] flatpak e3(1-3)]
    by (simp add: e1 e2 e3 wrapper_content_def)
qed

end
